theory Spec2Isabelle
  imports
    Complex_Main
    "HOL-Library.AList"
    "HOL-Library.List_Lexorder"
    "HOL-Library.Multiset"
    "HOL-Library.Product_Lexorder"
begin

section \<open>Values, errors and the client session\<close>

text \<open>
  The client of \<^verbatim>\<open>borsdata_api.py\<close> is a class with five attributes, a private
  request function, a parameter builder, two table helpers and one method per remote
  endpoint. The embedding keeps that shape: the object is a record that every method
  takes and returns, the outside world (clock, requests issued, lines printed) is a
  second record, and every Python exception is a value of \<open>error\<close>.

  Arguments that the source leaves untyped are values of \<open>arg\<close>: \<open>None\<close>, a string,
  an integer, or a list of instrument ids.
\<close>

datatype arg = ANone | AStr string | AInt int | AIds "int list"

datatype error =
    TypeError
  | KeyError
  | ValueError
  | AttributeError
  | ZeroDivisionError
  | JSONDecodeError

type_synonym params = "(string \<times> arg) list"

record session =
  api_key :: string
  url_root :: string
  last_api_call :: rat
  api_calls_per_second :: int
  base_params :: params

text \<open>\<^verbatim>\<open>BorsdataAPI.__init__\<close>\<close>

definition init :: "string \<Rightarrow> session" where
  "init key =
     \<lparr> api_key = key,
       url_root = ''https://apiservice.borsdata.se/v1/'',
       last_api_call = 0,
       api_calls_per_second = 10,
       base_params =
         [(''authKey'', AStr key),
          (''maxYearCount'', AInt 20),
          (''maxR12QCount'', AInt 40),
          (''maxCount'', AInt 20)] \<rparr>"

subsection \<open>JSON payloads and HTTP responses\<close>

datatype json =
    JNull
  | JBool bool
  | JInt int
  | JNum rat
  | JStr string
  | JArr "json list"
  | JObj "(string \<times> json) list"

text \<open>
  A response of the HTTP client: its status, its body, what \<^verbatim>\<open>response.json()\<close>
  decodes the body to (\<open>None\<close> when decoding raises) and the time the exchange took.
\<close>

record response =
  status_code :: int
  body :: string
  decoded :: "json option"
  elapsed :: rat

text \<open>What \<^verbatim>\<open>_call_api\<close> hands back: the response object itself, or the decoded JSON.\<close>

datatype api_result = Response response | Json json

datatype event =
    PrintUrl string params
  | PrintApiError int
  | PrintUnknownParam string arg
  | PrintValue api_result

text \<open>
  The world outside the object: the wall clock read by \<^verbatim>\<open>time.time()\<close> (an exact
  rational here, a float in the source), the GET requests issued so far and the lines
  printed so far, both oldest first.
\<close>

record world =
  clock :: rat
  sent :: "(string \<times> params) list"
  printed :: "event list"

definition print :: "event \<Rightarrow> world \<Rightarrow> world" where
  "print e w = w\<lparr>printed := printed w @ [e]\<rparr>"

definition sleep :: "rat \<Rightarrow> world \<Rightarrow> world" where
  "sleep d w = w\<lparr>clock := clock w + d\<rparr>"

subsection \<open>Python's \<^verbatim>\<open>str\<close> and \<^verbatim>\<open>join\<close>\<close>

definition digit_char :: "nat \<Rightarrow> char" where
  "digit_char d = char_of (48 + d)"

fun str_nat :: "nat \<Rightarrow> string" where
  "str_nat n = (if n < 10 then [digit_char n] else str_nat (n div 10) @ [digit_char (n mod 10)])"

declare str_nat.simps [simp del]

definition str_int :: "int \<Rightarrow> string" where
  "str_int i = (if i < 0 then CHR ''-'' # str_nat (nat (- i)) else str_nat (nat i))"

fun join :: "string \<Rightarrow> string list \<Rightarrow> string" where
  "join sep [] = []"
| "join sep [x] = x"
| "join sep (x # y # ys) = x @ sep @ join sep (y # ys)"

text \<open>
  \<^verbatim>\<open>str(stock_id) for stock_id in value\<close>: a list yields the decimal form of each id,
  a string yields its characters, an integer is not iterable. \<open>None\<close> never reaches
  this point (the caller tests for it first); iterating it raises as well.
\<close>

fun str_each :: "arg \<Rightarrow> error + string list" where
  "str_each (AIds ids) = Inr (map str_int ids)"
| "str_each (AStr s) = Inr (map (\<lambda>c. [c]) s)"
| "str_each (AInt i) = Inl TypeError"
| "str_each ANone = Inl TypeError"

section \<open>The parameter builder\<close>

text \<open>
  \<^verbatim>\<open>_get_params\<close>: a copy of the session's parameters, updated by the keyword
  arguments in the order they were passed. Python's \<open>dict\<close> keeps insertion order and
  overwrites in place, which is what \<^const>\<open>AList.update\<close> does. The second
  component collects the diagnostics printed on the way.
\<close>

fun get_params_loop ::
  "params \<Rightarrow> event list \<Rightarrow> (string \<times> arg) list \<Rightarrow> (error + params) \<times> event list" where
  "get_params_loop ps out [] = (Inr ps, out)"
| "get_params_loop ps out ((key, v) # kwargs) =
     (if v \<noteq> ANone then
        if key = ''from_date'' then
          get_params_loop (AList.update ''from'' v ps) out kwargs
        else if key = ''to'' \<or> key = ''date'' then
          get_params_loop (AList.update key v ps) out kwargs
        else if key = ''instList'' then
          (case str_each v of
             Inl e \<Rightarrow> (Inl e, out)
           | Inr strs \<Rightarrow>
               get_params_loop (AList.update key (AStr (join '','' strs)) ps) out kwargs)
        else
          get_params_loop ps (out @ [PrintUnknownParam key v]) kwargs
      else get_params_loop ps out kwargs)"

definition get_params :: "session \<Rightarrow> (string \<times> arg) list \<Rightarrow> (error + params) \<times> event list" where
  "get_params s kwargs = get_params_loop (base_params s) [] kwargs"

text \<open>\<^verbatim>\<open>_get_base_params\<close>\<close>

definition get_base_params :: "session \<Rightarrow> params" where
  "get_base_params s =
     [(''authKey'', AStr (api_key s)),
      (''version'', AInt 1),
      (''maxYearCount'', AInt 20),
      (''maxR12QCount'', AInt 40),
      (''maxCount'', AInt 20)]"

section \<open>Tables\<close>

text \<open>
  The client builds its results with pandas. A \<open>DataFrame\<close> is modelled by its column
  labels, the names of its index levels (none for the default \<open>RangeIndex\<close>) and its
  rows, each an index key and the data cells under the columns. A cell is a missing
  value (\<open>NaN\<close>, \<open>None\<close> or \<open>NaT\<close>), a scalar, a timestamp, or a nested JSON value
  the table carries along. Column labels are cells too: after a pivot they are data
  values.
\<close>

datatype cell =
    NA
  | CBool bool
  | CInt int
  | CNum rat
  | CStr string
  | CTime int
  | CObj json

record dataframe =
  columns :: "cell list"
  index_names :: "cell list"
  rows :: "(cell list \<times> cell list) list"

definition bnd :: "error + 'a \<Rightarrow> ('a \<Rightarrow> error + 'b) \<Rightarrow> error + 'b" where
  "bnd x f = (case x of Inl e \<Rightarrow> Inl e | Inr a \<Rightarrow> f a)"

fun traverse :: "('a \<Rightarrow> error + 'b) \<Rightarrow> 'a list \<Rightarrow> error + 'b list" where
  "traverse f [] = Inr []"
| "traverse f (x # xs) = bnd (f x) (\<lambda>y. bnd (traverse f xs) (\<lambda>ys. Inr (y # ys)))"

definition cell_at :: "dataframe \<Rightarrow> cell list \<Rightarrow> cell \<Rightarrow> cell" where
  "cell_at df r c = (case map_of (zip (columns df) r) c of Some v \<Rightarrow> v | None \<Rightarrow> NA)"

definition column_values :: "dataframe \<Rightarrow> cell \<Rightarrow> cell list" where
  "column_values df c = map (\<lambda>(k, r). cell_at df r c) (rows df)"

text \<open>\<^verbatim>\<open>df.rename(columns=m)\<close>: labels found in the mapping are replaced.\<close>

definition rename_label :: "(cell \<times> cell) list \<Rightarrow> cell \<Rightarrow> cell" where
  "rename_label m c = (case map_of m c of Some c' \<Rightarrow> c' | None \<Rightarrow> c)"

definition rename :: "(cell \<times> cell) list \<Rightarrow> dataframe \<Rightarrow> dataframe" where
  "rename m df = df\<lparr>columns := map (rename_label m) (columns df)\<rparr>"

text \<open>
  \<^verbatim>\<open>x.replace("_", "")\<close> and \<^verbatim>\<open>str.lower\<close> on a label or a cell: only a string has
  them (a timestamp has a \<open>replace\<close> of its own, which rejects these arguments).
  Lower-casing covers the ASCII letters.
\<close>

fun replace_underscore :: "cell \<Rightarrow> error + cell" where
  "replace_underscore (CStr x) = Inr (CStr (filter (\<lambda>c. c \<noteq> CHR ''_'') x))"
| "replace_underscore (CTime t) = Inl TypeError"
| "replace_underscore c = Inl AttributeError"

definition lower_char :: "char \<Rightarrow> char" where
  "lower_char c =
     (let n = (of_char c :: nat) in if 65 \<le> n \<and> n \<le> 90 then char_of (n + 32) else c)"

fun str_lower :: "cell \<Rightarrow> error + cell" where
  "str_lower (CStr x) = Inr (CStr (map lower_char x))"
| "str_lower c = Inl TypeError"

definition map_columns :: "(cell \<Rightarrow> error + cell) \<Rightarrow> dataframe \<Rightarrow> error + dataframe" where
  "map_columns f df = bnd (traverse f (columns df)) (\<lambda>cs. Inr (df\<lparr>columns := cs\<rparr>))"

text \<open>
  \<^verbatim>\<open>df[c] = values\<close> on an existing, unique label: the cells under \<open>c\<close> are replaced
  row by row.
\<close>

definition set_cell :: "dataframe \<Rightarrow> cell \<Rightarrow> cell list \<Rightarrow> cell \<Rightarrow> cell list" where
  "set_cell df c r v = map (\<lambda>(l, x). if l = c then v else x) (zip (columns df) r)"

definition set_column :: "dataframe \<Rightarrow> cell \<Rightarrow> cell list \<Rightarrow> dataframe" where
  "set_column df c vs = df\<lparr>rows := map (\<lambda>((k, r), v). (k, set_cell df c r v)) (zip (rows df) vs)\<rparr>"

text \<open>
  \<^verbatim>\<open>df.fillna(0)\<close>: every missing data cell becomes 0, written in the type of its
  column: the float 0.0 in a column of floats, the integer 0 in a column of objects
  (strings, integers kept as objects, or nothing but missing values). A column counts
  as one of floats when it has a value and all its values are floats.
\<close>

definition fill_value :: "cell list \<Rightarrow> cell" where
  "fill_value cs =
     (if (\<exists>c \<in> set cs. c \<noteq> NA) \<and>
         (\<forall>c \<in> set cs. c = NA \<or> (case c of CNum r \<Rightarrow> True | _ \<Rightarrow> False))
      then CNum 0 else CInt 0)"

definition fillna0 :: "dataframe \<Rightarrow> dataframe" where
  "fillna0 df =
     df\<lparr>rows := map (\<lambda>(k, r).
            (k, map (\<lambda>(j, x).
                   if x = NA
                   then fill_value (map (\<lambda>(k', r'). if j < length r' then r' ! j else NA) (rows df))
                   else x)
                 (enumerate 0 r)))
          (rows df)\<rparr>"

subsection \<open>Ordering index keys\<close>

text \<open>
  Sorting compares index keys level by level. Numbers compare by value, strings by code
  point, timestamps by instant; a missing value goes last in either direction
  (\<^verbatim>\<open>na_position='last'\<close>). \<open>cell_key asc\<close> maps a cell into a linear order that
  realises this: the first component is the kind of value, the others the value, negated
  (for a string: complemented and terminated) when the direction is descending.
\<close>

fun kind :: "cell \<Rightarrow> nat" where
  "kind (CBool b) = 0"
| "kind (CInt i) = 0"
| "kind (CNum r) = 0"
| "kind (CStr x) = 1"
| "kind (CTime t) = 2"
| "kind NA = 3"
| "kind (CObj j) = 4"

definition signed :: "bool \<Rightarrow> rat \<Rightarrow> rat" where
  "signed asc r = (if asc then r else - r)"

definition str_key :: "bool \<Rightarrow> string \<Rightarrow> nat list" where
  "str_key asc x = (if asc then map of_char x else map (\<lambda>c. 255 - of_char c) x @ [256])"

fun cell_key :: "bool \<Rightarrow> cell \<Rightarrow> nat \<times> rat \<times> nat list" where
  "cell_key asc (CBool b) = (0, signed asc (of_bool b), [])"
| "cell_key asc (CInt i) = (0, signed asc (of_int i), [])"
| "cell_key asc (CNum r) = (0, signed asc r, [])"
| "cell_key asc (CStr x) = (1, 0, str_key asc x)"
| "cell_key asc (CTime t) = (2, signed asc (of_int t), [])"
| "cell_key asc NA = (3, 0, [])"
| "cell_key asc (CObj j) = (4, 0, [])"

text \<open>
  Python refuses to order values of different kinds, and nested values are taken as
  unorderable; a missing value is never compared.
\<close>

definition comparable :: "cell \<Rightarrow> cell \<Rightarrow> bool" where
  "comparable a b = (a = NA \<or> b = NA \<or> (kind a = kind b \<and> kind a \<noteq> 4))"

definition keys_comparable :: "cell list list \<Rightarrow> bool" where
  "keys_comparable ks = sorted_wrt (list_all2 comparable) ks"

definition sort_keys :: "bool \<Rightarrow> (cell list \<times> 'a) list \<Rightarrow> (cell list \<times> 'a) list" where
  "sort_keys asc rs = sort_key (\<lambda>(k, r). map (cell_key asc) k) rs"

text \<open>\<^verbatim>\<open>df.sort_index(ascending=asc)\<close>\<close>

definition pd_sort_index :: "dataframe \<Rightarrow> bool \<Rightarrow> error + dataframe" where
  "pd_sort_index df asc =
     (if \<not> keys_comparable (map fst (rows df)) then Inl TypeError
      else Inr (df\<lparr>rows := sort_keys asc (rows df)\<rparr>))"

text \<open>
  \<^verbatim>\<open>df.set_index(keys)\<close> with the default \<^verbatim>\<open>drop=True\<close>: the named columns become
  the index and leave the data. pandas raises for an empty list of keys, for a key
  that is not a column, for a key named twice and for a key that labels two columns.
\<close>

definition pd_set_index :: "dataframe \<Rightarrow> cell list \<Rightarrow> error + dataframe" where
  "pd_set_index df keys =
     (if keys = [] then Inl ValueError
      else if \<exists>k \<in> set keys. k \<notin> set (columns df) then Inl KeyError
      else if \<not> distinct keys then Inl KeyError
      else if \<exists>k \<in> set keys. count_list (columns df) k \<noteq> 1 then Inl ValueError
      else Inr (df\<lparr>
        columns := filter (\<lambda>c. c \<notin> set keys) (columns df),
        index_names := keys,
        rows := map (\<lambda>(k, r).
                  (map (cell_at df r) keys,
                   map snd (filter (\<lambda>(c, v). c \<notin> set keys) (zip (columns df) r))))
                (rows df)\<rparr>))"

text \<open>
  \<^verbatim>\<open>df.pivot_table(index=idx, columns=col, values=val)\<close> with the default mean: one
  row per distinct index key and one column per distinct value of \<open>col\<close>, both in
  ascending order, each cell the mean of the values that fall under it and missing where
  there is none. Entries with a missing key or a missing value do not count
  (\<^verbatim>\<open>dropna=True\<close>). The mean is exact here; the source computes it in floating point,
  which agrees for a single value.
\<close>

fun number_of :: "cell \<Rightarrow> rat option" where
  "number_of (CBool b) = Some (of_bool b)"
| "number_of (CInt i) = Some (of_int i)"
| "number_of (CNum r) = Some r"
| "number_of c = None"

definition mean_cell :: "cell list \<Rightarrow> cell" where
  "mean_cell vs =
     (if vs = [] then NA
      else CNum (sum_list (map (\<lambda>v. case number_of v of Some r \<Rightarrow> r | None \<Rightarrow> 0) vs)
                 / of_nat (length vs)))"

definition sorted_distinct_keys :: "cell list list \<Rightarrow> cell list list" where
  "sorted_distinct_keys ks = remdups (sort_key (map (cell_key True)) ks)"

definition pd_pivot_table :: "dataframe \<Rightarrow> cell list \<Rightarrow> cell \<Rightarrow> cell \<Rightarrow> error + dataframe" where
  "pd_pivot_table df idx col val =
     (if \<exists>k \<in> set (idx @ [col, val]). k \<notin> set (columns df) then Inl KeyError
      else if \<exists>k \<in> set (idx @ [col, val]). count_list (columns df) k \<noteq> 1 then Inl ValueError
      else
        let entries = map (\<lambda>(k, r). (map (cell_at df r) idx, cell_at df r col, cell_at df r val))
                        (rows df);
            present = filter (\<lambda>(rk, ck, v). NA \<notin> set rk \<and> ck \<noteq> NA \<and> v \<noteq> NA) entries
        in
          if \<exists>(rk, ck, v) \<in> set present. number_of v = None then Inl TypeError
          else if \<exists>(rk, ck, v) \<in> set present. \<exists>c \<in> set (ck # rk). kind c = 4 then Inl TypeError
          else if \<not> keys_comparable (map (\<lambda>(rk, ck, v). ck # rk) present) then Inl TypeError
          else
            let row_keys = sorted_distinct_keys (map (\<lambda>(rk, ck, v). rk) present);
                col_keys = map hd (sorted_distinct_keys (map (\<lambda>(rk, ck, v). [ck]) present))
            in Inr \<lparr> columns = col_keys,
                     index_names = idx,
                     rows = map (\<lambda>rk.
                              (rk, map (\<lambda>ck. mean_cell
                                     (map (\<lambda>(rk', ck', v). v)
                                        (filter (\<lambda>(rk', ck', v). rk' = rk \<and> ck' = ck) present)))
                                   col_keys))
                            row_keys \<rparr>)"

section \<open>The client's table helpers\<close>

text \<open>
  \<^verbatim>\<open>_set_index(df, index, ascending)\<close>: \<open>index\<close> is one label or a list of labels.
  The method returns at once when a label is not among the columns; otherwise it sets
  the index and sorts by it. The source mutates \<open>df\<close> in place; the model returns the
  table.
\<close>

datatype index_spec = Single cell | Multi "cell list"

fun set_index :: "dataframe \<Rightarrow> index_spec \<Rightarrow> bool \<Rightarrow> error + dataframe" where
  "set_index df (Multi idxs) ascending =
     (if \<exists>idx \<in> set idxs. idx \<notin> set (columns df) then Inr df
      else bnd (pd_set_index df idxs) (\<lambda>df'. pd_sort_index df' ascending))"
| "set_index df (Single idx) ascending =
     (if idx \<notin> set (columns df) then Inr df
      else bnd (pd_set_index df [idx]) (\<lambda>df'. pd_sort_index df' ascending))"

section \<open>The environment: server and pandas readers\<close>

text \<open>
  Three things the client calls are not its own code and not tables: the HTTP exchange
  (\<^verbatim>\<open>requests.get\<close>), \<^verbatim>\<open>pd.json_normalize\<close> (with its \<open>record_path\<close> and
  \<open>meta\<close> arguments) and \<^verbatim>\<open>pd.to_datetime\<close> (on a column and on a single value).
  They are parameters of the model, so that every theorem below holds whatever the server
  answers and however pandas reads a payload.
\<close>

record env =
  transport :: "world \<Rightarrow> string \<Rightarrow> params \<Rightarrow> response"
  json_normalize :: "json \<Rightarrow> string option \<Rightarrow> string list \<Rightarrow> error + dataframe"
  to_datetime :: "cell list \<Rightarrow> error + cell list"
  to_datetime_scalar :: "json \<Rightarrow> error + cell"

text \<open>
  \<^verbatim>\<open>_parse_date(df, key)\<close>: when \<open>key\<close> is a column, the column is replaced by what
  \<^verbatim>\<open>pd.to_datetime\<close> makes of it. With two columns of that label \<^verbatim>\<open>df[key]\<close> is a
  table, which \<^verbatim>\<open>pd.to_datetime\<close> rejects.
\<close>

definition parse_date :: "env \<Rightarrow> dataframe \<Rightarrow> cell \<Rightarrow> error + dataframe" where
  "parse_date E df key =
     (if key \<in> set (columns df) then
        if count_list (columns df) key \<noteq> 1 then Inl ValueError
        else bnd (to_datetime E (column_values df key)) (\<lambda>vs. Inr (set_column df key vs))
      else Inr df)"

section \<open>The request function\<close>

text \<open>
  \<^verbatim>\<open>_call_api(url, **kwargs)\<close>: wait until a tenth of a second has passed since the
  last call, issue the GET with the built parameters, print the URL, record the time,
  and return the response object when the status is not 200, the decoded JSON otherwise.
  The clock advances by the time slept and by the time the exchange took.
\<close>

definition call_api ::
  "env \<Rightarrow> session \<Rightarrow> world \<Rightarrow> string \<Rightarrow> (string \<times> arg) list
     \<Rightarrow> (error + api_result) \<times> session \<times> world" where
  "call_api E s w url kwargs =
     (let current_time = clock w;
          time_delta = current_time - last_api_call s
      in
        if api_calls_per_second s = 0 then (Inl ZeroDivisionError, s, w)
        else
          let w1 = (if time_delta < 1 / of_int (api_calls_per_second s)
                    then sleep (1 / of_int (api_calls_per_second s) - time_delta) w
                    else w)
          in
            case get_params s kwargs of
              (Inl e, out) \<Rightarrow> (Inl e, s, w1\<lparr>printed := printed w1 @ out\<rparr>)
            | (Inr ps, out) \<Rightarrow>
                let w2 = w1\<lparr>printed := printed w1 @ out\<rparr>;
                    response = transport E w2 (url_root s @ url) ps;
                    w3 = w2\<lparr>clock := clock w2 + elapsed response,
                            sent := sent w2 @ [(url_root s @ url, ps)]\<rparr>;
                    w4 = print (PrintUrl (url_root s @ url) ps) w3;
                    s' = s\<lparr>last_api_call := clock w4\<rparr>
                in
                  if status_code response \<noteq> 200
                  then (Inr (Response response), s', print (PrintApiError (status_code response)) w4)
                  else (case decoded response of
                          None \<Rightarrow> (Inl JSONDecodeError, s', w4)
                        | Some j \<Rightarrow> (Inr (Json j), s', w4)))"

text \<open>
  \<^verbatim>\<open>json_data[key]\<close>: only a decoded JSON object can be subscripted with a string;
  the response object, an array or a scalar raises \<open>TypeError\<close>, a missing key
  \<open>KeyError\<close>.
\<close>

fun subscript :: "api_result \<Rightarrow> string \<Rightarrow> error + json" where
  "subscript (Json (JObj kvs)) key =
     (case map_of kvs key of Some v \<Rightarrow> Inr v | None \<Rightarrow> Inl KeyError)"
| "subscript r key = Inl TypeError"

text \<open>The part of a method that follows the call: it runs only when the call returned.\<close>

definition and_then ::
  "(error + api_result) \<times> session \<times> world \<Rightarrow> (api_result \<Rightarrow> error + 'a)
     \<Rightarrow> (error + 'a) \<times> session \<times> world" where
  "and_then called f =
     (case called of
        (Inl e, s, w) \<Rightarrow> (Inl e, s, w)
      | (Inr json_data, s, w) \<Rightarrow> (f json_data, s, w))"

section \<open>The endpoint methods\<close>

text \<open>
  Each method builds its URL, calls \<^const>\<open>call_api\<close>, takes the payload under the
  endpoint's envelope key, lets pandas read it and reshapes the table. A method returns
  its result or the exception it raised, together with the session and the world as it
  left them.
\<close>

subsection \<open>Instrument metadata\<close>

definition get_branches :: "env \<Rightarrow> session \<Rightarrow> world \<Rightarrow> (error + dataframe) \<times> session \<times> world" where
  "get_branches E s w =
     and_then (call_api E s w ''branches'' []) (\<lambda>json_data.
       bnd (subscript json_data ''branches'') (\<lambda>v.
       bnd (json_normalize E v None []) (\<lambda>df.
       set_index df (Single (CStr ''id'')) True)))"

definition get_countries :: "env \<Rightarrow> session \<Rightarrow> world \<Rightarrow> (error + dataframe) \<times> session \<times> world" where
  "get_countries E s w =
     and_then (call_api E s w ''countries'' []) (\<lambda>json_data.
       bnd (subscript json_data ''countries'') (\<lambda>v.
       bnd (json_normalize E v None []) (\<lambda>df.
       set_index df (Single (CStr ''id'')) True)))"

definition get_markets :: "env \<Rightarrow> session \<Rightarrow> world \<Rightarrow> (error + dataframe) \<times> session \<times> world" where
  "get_markets E s w =
     and_then (call_api E s w ''markets'' []) (\<lambda>json_data.
       bnd (subscript json_data ''markets'') (\<lambda>v.
       bnd (json_normalize E v None []) (\<lambda>df.
       set_index df (Single (CStr ''id'')) True)))"

definition get_sectors :: "env \<Rightarrow> session \<Rightarrow> world \<Rightarrow> (error + dataframe) \<times> session \<times> world" where
  "get_sectors E s w =
     and_then (call_api E s w ''sectors'' []) (\<lambda>json_data.
       bnd (subscript json_data ''sectors'') (\<lambda>v.
       bnd (json_normalize E v None []) (\<lambda>df.
       set_index df (Single (CStr ''id'')) True)))"

definition get_translation_metadata :: "env \<Rightarrow> session \<Rightarrow> world \<Rightarrow> (error + dataframe) \<times> session \<times> world" where
  "get_translation_metadata E s w =
     and_then (call_api E s w ''translationmetadata'' []) (\<lambda>json_data.
       bnd (subscript json_data ''translationMetadatas'') (\<lambda>v.
       bnd (json_normalize E v None []) (\<lambda>df.
       set_index df (Single (CStr ''translationKey'')) True)))"

subsection \<open>Instruments\<close>

definition get_instruments :: "env \<Rightarrow> session \<Rightarrow> world \<Rightarrow> (error + dataframe) \<times> session \<times> world" where
  "get_instruments E s w =
     and_then (call_api E s w ''instruments'' []) (\<lambda>json_data.
       bnd (subscript json_data ''instruments'') (\<lambda>v.
       bnd (json_normalize E v None []) (\<lambda>df.
       bnd (parse_date E df (CStr ''listingDate'')) (\<lambda>df.
       set_index df (Single (CStr ''insId'')) True))))"

definition get_instruments_updated :: "env \<Rightarrow> session \<Rightarrow> world \<Rightarrow> (error + dataframe) \<times> session \<times> world" where
  "get_instruments_updated E s w =
     (case call_api E s w ''instruments/updated'' [] of
        (Inl e, s', w') \<Rightarrow> (Inl e, s', w')
      | (Inr json_data, s', w') \<Rightarrow>
          (bnd (subscript json_data ''instruments'') (\<lambda>v.
           bnd (json_normalize E v None []) (\<lambda>df.
           bnd (parse_date E df (CStr ''updatedAt'')) (\<lambda>df.
           set_index df (Single (CStr ''insId'')) True))),
           s', print (PrintValue json_data) w'))"

text \<open>
  \<^verbatim>\<open>get_instrument_descriptions\<close> returns \<open>None\<close> for more than 50 ids, before
  anything else happens.
\<close>

definition get_instrument_descriptions ::
  "env \<Rightarrow> session \<Rightarrow> world \<Rightarrow> int list \<Rightarrow> (error + dataframe option) \<times> session \<times> world" where
  "get_instrument_descriptions E s w ins_ids =
     (if length ins_ids > 50 then (Inr None, s, w)
      else
        and_then (call_api E s w ''instruments/description'' [(''instList'', AIds ins_ids)])
          (\<lambda>json_data.
            bnd (subscript json_data ''list'') (\<lambda>v.
            bnd (json_normalize E v None []) (\<lambda>df.
            bnd (set_index (rename [(CStr ''languageCode'', CStr ''lang'')] df)
                   (Multi [CStr ''insId'', CStr ''lang'']) True) (\<lambda>df.
            Inr (Some df))))))"

subsection \<open>KPIs\<close>

text \<open>
  \<^verbatim>\<open>get_kpi_history\<close> builds a local parameter set from \<open>max_count\<close> and then calls
  \<^verbatim>\<open>_call_api(url)\<close> without it.
\<close>

definition get_kpi_history ::
  "env \<Rightarrow> session \<Rightarrow> world \<Rightarrow> int \<Rightarrow> int \<Rightarrow> string \<Rightarrow> string \<Rightarrow> arg
     \<Rightarrow> (error + dataframe) \<times> session \<times> world" where
  "get_kpi_history E s w ins_id kpi_id report_type price_type max_count =
     (let url = ''instruments/'' @ str_int ins_id @ ''/kpis/'' @ str_int kpi_id @ ''/''
                @ report_type @ ''/'' @ price_type @ ''/history'';
          params = (if max_count \<noteq> ANone
                    then AList.update ''maxCount'' max_count (get_base_params s)
                    else get_base_params s)
      in
        case call_api E s w url [] of
          (Inl e, s', w') \<Rightarrow> (Inl e, s', w')
        | (Inr json_data, s', w') \<Rightarrow>
            (case subscript json_data ''values'' of
               Inl e \<Rightarrow> (Inl e, s', w')
             | Inr v \<Rightarrow>
                 (bnd (json_normalize E v None []) (\<lambda>df.
                  set_index
                    (rename [(CStr ''y'', CStr ''year''), (CStr ''p'', CStr ''period''),
                             (CStr ''v'', CStr ''kpiValue'')] df)
                    (Multi [CStr ''year'', CStr ''period'']) False),
                  s', print (PrintValue (Json v)) w')))"

text \<open>
  \<^verbatim>\<open>get_kpi_summary\<close> and \<^verbatim>\<open>get_instrument_report\<close> write \<open>max_count\<close> into the
  session's own parameters before the call.
\<close>

definition set_max_count :: "arg \<Rightarrow> session \<Rightarrow> session" where
  "set_max_count max_count s =
     (if max_count \<noteq> ANone
      then s\<lparr>base_params := AList.update ''maxCount'' max_count (base_params s)\<rparr>
      else s)"

definition get_kpi_summary ::
  "env \<Rightarrow> session \<Rightarrow> world \<Rightarrow> int \<Rightarrow> string \<Rightarrow> arg \<Rightarrow> (error + dataframe) \<times> session \<times> world" where
  "get_kpi_summary E s w ins_id report_type max_count =
     and_then
       (call_api E (set_max_count max_count s) w
          (''instruments/'' @ str_int ins_id @ ''/kpis/'' @ report_type @ ''/summary'') [])
       (\<lambda>json_data.
         bnd (subscript json_data ''kpis'') (\<lambda>v.
         bnd (json_normalize E v (Some ''values'') [''KpiId'']) (\<lambda>df.
         bnd (pd_pivot_table
                (rename [(CStr ''y'', CStr ''year''), (CStr ''p'', CStr ''period''),
                         (CStr ''v'', CStr ''kpiValue''), (CStr ''KpiId'', CStr ''kpiId'')] df)
                [CStr ''year'', CStr ''period''] (CStr ''kpiId'') (CStr ''kpiValue'')) (\<lambda>df.
         set_index df (Multi [CStr ''year'', CStr ''period'']) False))))"

definition kpi_screener :: "env \<Rightarrow> json \<Rightarrow> error + dataframe" where
  "kpi_screener E v =
     bnd (json_normalize E v None []) (\<lambda>df.
     set_index
       (rename [(CStr ''i'', CStr ''insId''), (CStr ''n'', CStr ''valueNum''),
                (CStr ''s'', CStr ''valueStr'')] df)
       (Single (CStr ''insId'')) True)"

definition get_kpi_data_instrument ::
  "env \<Rightarrow> session \<Rightarrow> world \<Rightarrow> int \<Rightarrow> int \<Rightarrow> string \<Rightarrow> string
     \<Rightarrow> (error + dataframe) \<times> session \<times> world" where
  "get_kpi_data_instrument E s w ins_id kpi_id calc_group calc =
     and_then
       (call_api E s w
          (''instruments/'' @ str_int ins_id @ ''/kpis/'' @ str_int kpi_id @ ''/''
           @ calc_group @ ''/'' @ calc) [])
       (\<lambda>json_data. bnd (subscript json_data ''value'') (kpi_screener E))"

definition get_kpi_data_all_instruments ::
  "env \<Rightarrow> session \<Rightarrow> world \<Rightarrow> int \<Rightarrow> string \<Rightarrow> string \<Rightarrow> (error + dataframe) \<times> session \<times> world" where
  "get_kpi_data_all_instruments E s w kpi_id calc_group calc =
     and_then
       (call_api E s w
          (''instruments/kpis/'' @ str_int kpi_id @ ''/'' @ calc_group @ ''/'' @ calc) [])
       (\<lambda>json_data. bnd (subscript json_data ''values'') (kpi_screener E))"

definition get_updated_kpis :: "env \<Rightarrow> session \<Rightarrow> world \<Rightarrow> (error + cell) \<times> session \<times> world" where
  "get_updated_kpis E s w =
     and_then (call_api E s w ''instruments/kpis/updated'' []) (\<lambda>json_data.
       bnd (subscript json_data ''kpisCalcUpdated'') (to_datetime_scalar E))"

definition get_kpi_metadata :: "env \<Rightarrow> session \<Rightarrow> world \<Rightarrow> (error + dataframe) \<times> session \<times> world" where
  "get_kpi_metadata E s w =
     and_then (call_api E s w ''instruments/kpis/metadata'' []) (\<lambda>json_data.
       bnd (subscript json_data ''kpiHistoryMetadatas'') (\<lambda>v.
       bnd (json_normalize E v None []) (\<lambda>df.
       set_index df (Single (CStr ''kpiId'')) True)))"

subsection \<open>Reports\<close>

text \<open>The reshaping shared by \<^verbatim>\<open>get_instrument_report\<close> and \<^verbatim>\<open>get_instrument_reports\<close>.\<close>

definition report_table :: "env \<Rightarrow> json \<Rightarrow> error + dataframe" where
  "report_table E v =
     bnd (json_normalize E v None []) (\<lambda>df.
     bnd (map_columns replace_underscore df) (\<lambda>df.
     bnd (parse_date E df (CStr ''reportStartDate'')) (\<lambda>df.
     bnd (parse_date E df (CStr ''reportEndDate'')) (\<lambda>df.
     bnd (parse_date E df (CStr ''reportDate'')) (\<lambda>df.
     set_index df (Multi [CStr ''year'', CStr ''period'']) False)))))"

definition get_instrument_report ::
  "env \<Rightarrow> session \<Rightarrow> world \<Rightarrow> int \<Rightarrow> string \<Rightarrow> arg \<Rightarrow> (error + dataframe) \<times> session \<times> world" where
  "get_instrument_report E s w ins_id report_type max_count =
     and_then
       (call_api E (set_max_count max_count s) w
          (''instruments/'' @ str_int ins_id @ ''/reports/'' @ report_type) [])
       (\<lambda>json_data. bnd (subscript json_data ''reports'') (report_table E))"

definition get_instrument_reports ::
  "env \<Rightarrow> session \<Rightarrow> world \<Rightarrow> int \<Rightarrow> (error + dataframe list) \<times> session \<times> world" where
  "get_instrument_reports E s w ins_id =
     and_then (call_api E s w (''instruments/'' @ str_int ins_id @ ''/reports'') [])
       (\<lambda>json_data.
         traverse (\<lambda>report_type. bnd (subscript json_data report_type) (report_table E))
           [''reportsQuarter'', ''reportsYear'', ''reportsR12''])"

definition report_list_table :: "env \<Rightarrow> json \<Rightarrow> string \<Rightarrow> error + dataframe" where
  "report_list_table E v record_path =
     bnd (json_normalize E v (Some record_path) [''instrument'']) (\<lambda>df.
     bnd (map_columns str_lower df) (\<lambda>df.
     bnd (parse_date E (rename [(CStr ''instrument'', CStr ''stock_id'')] df)
            (CStr ''report_start_date'')) (\<lambda>df.
     bnd (parse_date E df (CStr ''report_end_date'')) (\<lambda>df.
     parse_date E df (CStr ''report_date'')))))"

definition get_instrument_report_list ::
  "env \<Rightarrow> session \<Rightarrow> world \<Rightarrow> int list
     \<Rightarrow> (error + dataframe \<times> dataframe \<times> dataframe) \<times> session \<times> world" where
  "get_instrument_report_list E s w stock_id_list =
     and_then (call_api E s w ''instruments/reports'' [(''instList'', AIds stock_id_list)])
       (\<lambda>json_data.
         bnd (subscript json_data ''reportList'') (\<lambda>v.
         bnd (report_list_table E v ''reportsR12'') (\<lambda>r12.
         bnd (subscript json_data ''reportList'') (\<lambda>v.
         bnd (report_list_table E v ''reportsQuarter'') (\<lambda>quarter.
         bnd (subscript json_data ''reportList'') (\<lambda>v.
         bnd (report_list_table E v ''reportsYear'') (\<lambda>year.
         Inr (quarter, year, r12))))))))"

text \<open>
  \<^verbatim>\<open>df[c] = df[c].apply(lambda x: x.replace("_", ""))\<close> needs the column, and a
  string in every row of it. When two columns carry the label, \<^verbatim>\<open>df[c]\<close> is a table
  and the function is applied to its columns, where \<^verbatim>\<open>replace\<close> is the one of pandas:
  it empties the cells that are exactly \<^verbatim>\<open>"_"\<close>.
\<close>

definition strip_column :: "dataframe \<Rightarrow> cell \<Rightarrow> error + dataframe" where
  "strip_column df c =
     (if c \<notin> set (columns df) then Inl KeyError
      else if count_list (columns df) c \<noteq> 1 then
        Inr (df\<lparr>rows := map (\<lambda>(k, r).
               (k, map (\<lambda>(l, x). if l = c \<and> x = CStr ''_'' then CStr [] else x)
                     (zip (columns df) r)))
             (rows df)\<rparr>)
      else bnd (traverse replace_underscore (column_values df c)) (\<lambda>vs.
           Inr (set_column df c vs)))"

definition get_reports_metadata :: "env \<Rightarrow> session \<Rightarrow> world \<Rightarrow> (error + dataframe) \<times> session \<times> world" where
  "get_reports_metadata E s w =
     and_then (call_api E s w ''instruments/reports/metadata'' []) (\<lambda>json_data.
       bnd (subscript json_data ''reportMetadatas'') (\<lambda>v.
       bnd (json_normalize E v None []) (\<lambda>df.
       bnd (strip_column (rename [(CStr ''reportPropery'', CStr ''reportProperty'')] df)
              (CStr ''reportProperty'')) (\<lambda>df.
       set_index df (Single (CStr ''reportProperty'')) True))))"

definition get_report_calendar ::
  "env \<Rightarrow> session \<Rightarrow> world \<Rightarrow> int list \<Rightarrow> (error + dataframe) \<times> session \<times> world" where
  "get_report_calendar E s w ins_ids =
     and_then (call_api E s w ''instruments/report/calendar'' [(''instList'', AIds ins_ids)])
       (\<lambda>json_data.
         bnd (subscript json_data ''list'') (\<lambda>v.
         json_normalize E v (Some ''values'') [''insId'']))"

subsection \<open>Stock prices\<close>

definition price_names :: "(cell \<times> cell) list" where
  "price_names =
     [(CStr ''d'', CStr ''date''), (CStr ''c'', CStr ''close''), (CStr ''h'', CStr ''high''),
      (CStr ''l'', CStr ''low''), (CStr ''o'', CStr ''open''), (CStr ''v'', CStr ''volume'')]"

definition price_names_ins :: "(cell \<times> cell) list" where
  "price_names_ins =
     [(CStr ''d'', CStr ''date''), (CStr ''i'', CStr ''insId''), (CStr ''c'', CStr ''close''),
      (CStr ''h'', CStr ''high''), (CStr ''l'', CStr ''low''), (CStr ''o'', CStr ''open''),
      (CStr ''v'', CStr ''volume'')]"

definition get_instrument_stock_prices ::
  "env \<Rightarrow> session \<Rightarrow> world \<Rightarrow> int \<Rightarrow> arg \<Rightarrow> arg \<Rightarrow> arg \<Rightarrow> (error + dataframe) \<times> session \<times> world" where
  "get_instrument_stock_prices E s w ins_id from_date to_date max_count =
     and_then
       (call_api E s w (''instruments/'' @ str_int ins_id @ ''/stockprices'')
          [(''from_date'', from_date), (''to'', to_date)])
       (\<lambda>json_data.
         bnd (subscript json_data ''stockPricesList'') (\<lambda>v.
         bnd (json_normalize E v None []) (\<lambda>df.
         bnd (parse_date E (rename price_names df) (CStr ''date'')) (\<lambda>df.
         set_index df (Single (CStr ''date'')) False))))"

definition get_instrument_stock_prices_list ::
  "env \<Rightarrow> session \<Rightarrow> world \<Rightarrow> int list \<Rightarrow> arg \<Rightarrow> arg \<Rightarrow> (error + dataframe) \<times> session \<times> world" where
  "get_instrument_stock_prices_list E s w stock_id_list from_date to_date =
     and_then
       (call_api E s w ''instruments/stockprices''
          [(''from_date'', from_date), (''to'', to_date), (''instList'', AIds stock_id_list)])
       (\<lambda>json_data.
         bnd (subscript json_data ''stockPricesArrayList'') (\<lambda>v.
         bnd (json_normalize E v (Some ''stockPricesList'') [''instrument'']) (\<lambda>stock_prices.
         Inr (fillna0
                (rename (price_names @ [(CStr ''instrument'', CStr ''stock_id'')])
                   stock_prices)))))"

definition get_instruments_stock_prices_last ::
  "env \<Rightarrow> session \<Rightarrow> world \<Rightarrow> (error + dataframe) \<times> session \<times> world" where
  "get_instruments_stock_prices_last E s w =
     and_then (call_api E s w ''instruments/stockprices/last'' []) (\<lambda>json_data.
       bnd (subscript json_data ''stockPricesList'') (\<lambda>v.
       bnd (json_normalize E v None []) (\<lambda>df.
       bnd (parse_date E (rename price_names_ins df) (CStr ''date'')) (\<lambda>df.
       set_index df (Single (CStr ''date'')) False))))"

definition get_stock_prices_date ::
  "env \<Rightarrow> session \<Rightarrow> world \<Rightarrow> arg \<Rightarrow> (error + dataframe) \<times> session \<times> world" where
  "get_stock_prices_date E s w date =
     and_then (call_api E s w ''instruments/stockprices/date'' [(''date'', date)])
       (\<lambda>json_data.
         bnd (subscript json_data ''stockPricesList'') (\<lambda>v.
         bnd (json_normalize E v None []) (\<lambda>df.
         bnd (parse_date E (rename price_names_ins df) (CStr ''date'')) (\<lambda>df.
         set_index df (Single (CStr ''insId'')) True))))"

subsection \<open>Stock splits\<close>

definition get_stock_splits :: "env \<Rightarrow> session \<Rightarrow> world \<Rightarrow> (error + dataframe) \<times> session \<times> world" where
  "get_stock_splits E s w =
     and_then (call_api E s w ''instruments/stocksplits'' []) (\<lambda>json_data.
       bnd (subscript json_data ''stockSplitList'') (\<lambda>v.
       bnd (json_normalize E v None []) (\<lambda>df.
       bnd (parse_date E (rename [(CStr ''instrumentId'', CStr ''insId'')] df)
              (CStr ''splitDate'')) (\<lambda>df.
       set_index df (Single (CStr ''insId'')) True))))"

section \<open>Every method under one name\<close>

datatype operation =
    GetBranches
  | GetCountries
  | GetMarkets
  | GetSectors
  | GetTranslationMetadata
  | GetInstruments
  | GetInstrumentsUpdated
  | GetInstrumentDescriptions "int list"
  | GetKpiHistory int int string string arg
  | GetKpiSummary int string arg
  | GetKpiDataInstrument int int string string
  | GetKpiDataAllInstruments int string string
  | GetUpdatedKpis
  | GetKpiMetadata
  | GetInstrumentReport int string arg
  | GetInstrumentReports int
  | GetInstrumentReportList "int list"
  | GetReportsMetadata
  | GetReportCalendar "int list"
  | GetInstrumentStockPrices int arg arg arg
  | GetInstrumentStockPricesList "int list" arg arg
  | GetInstrumentsStockPricesLast
  | GetStockPricesDate arg
  | GetStockSplits

datatype result =
    Table dataframe
  | MaybeTable "dataframe option"
  | TableList "dataframe list"
  | TableTriple dataframe dataframe dataframe
  | Instant cell

definition returning ::
  "('a \<Rightarrow> result) \<Rightarrow> (error + 'a) \<times> session \<times> world \<Rightarrow> (error + result) \<times> session \<times> world" where
  "returning f out = (case out of (r, s, w) \<Rightarrow> (map_sum id f r, s, w))"

fun run :: "env \<Rightarrow> session \<Rightarrow> world \<Rightarrow> operation \<Rightarrow> (error + result) \<times> session \<times> world" where
  "run E s w GetBranches = returning Table (get_branches E s w)"
| "run E s w GetCountries = returning Table (get_countries E s w)"
| "run E s w GetMarkets = returning Table (get_markets E s w)"
| "run E s w GetSectors = returning Table (get_sectors E s w)"
| "run E s w GetTranslationMetadata = returning Table (get_translation_metadata E s w)"
| "run E s w GetInstruments = returning Table (get_instruments E s w)"
| "run E s w GetInstrumentsUpdated = returning Table (get_instruments_updated E s w)"
| "run E s w (GetInstrumentDescriptions ins_ids) =
     returning MaybeTable (get_instrument_descriptions E s w ins_ids)"
| "run E s w (GetKpiHistory ins_id kpi_id report_type price_type max_count) =
     returning Table (get_kpi_history E s w ins_id kpi_id report_type price_type max_count)"
| "run E s w (GetKpiSummary ins_id report_type max_count) =
     returning Table (get_kpi_summary E s w ins_id report_type max_count)"
| "run E s w (GetKpiDataInstrument ins_id kpi_id calc_group calc) =
     returning Table (get_kpi_data_instrument E s w ins_id kpi_id calc_group calc)"
| "run E s w (GetKpiDataAllInstruments kpi_id calc_group calc) =
     returning Table (get_kpi_data_all_instruments E s w kpi_id calc_group calc)"
| "run E s w GetUpdatedKpis = returning Instant (get_updated_kpis E s w)"
| "run E s w GetKpiMetadata = returning Table (get_kpi_metadata E s w)"
| "run E s w (GetInstrumentReport ins_id report_type max_count) =
     returning Table (get_instrument_report E s w ins_id report_type max_count)"
| "run E s w (GetInstrumentReports ins_id) =
     returning TableList (get_instrument_reports E s w ins_id)"
| "run E s w (GetInstrumentReportList stock_id_list) =
     returning (\<lambda>(quarter, year, r12). TableTriple quarter year r12)
       (get_instrument_report_list E s w stock_id_list)"
| "run E s w GetReportsMetadata = returning Table (get_reports_metadata E s w)"
| "run E s w (GetReportCalendar ins_ids) = returning Table (get_report_calendar E s w ins_ids)"
| "run E s w (GetInstrumentStockPrices ins_id from_date to_date max_count) =
     returning Table (get_instrument_stock_prices E s w ins_id from_date to_date max_count)"
| "run E s w (GetInstrumentStockPricesList stock_id_list from_date to_date) =
     returning Table (get_instrument_stock_prices_list E s w stock_id_list from_date to_date)"
| "run E s w GetInstrumentsStockPricesLast =
     returning Table (get_instruments_stock_prices_last E s w)"
| "run E s w (GetStockPricesDate date) = returning Table (get_stock_prices_date E s w date)"
| "run E s w GetStockSplits = returning Table (get_stock_splits E s w)"

section \<open>A concrete environment for worked examples\<close>

text \<open>
  The examples need one server and one reading of payloads to compute with.
  \<open>normalize_flat\<close> reads an array of JSON objects whose fields are scalars the way
  \<^verbatim>\<open>pd.json_normalize\<close> does: one row per object, one column per field name in order of
  first appearance, a missing value where an object lacks the field, and with a
  \<open>record_path\<close> one row per child record, the parent's \<open>meta\<close> fields appended as
  the last columns. It keeps every value as the payload has it, so it agrees with pandas
  where pandas does not convert: on payloads in which a numeric field is an integer in
  every object or a float wherever it occurs (pandas turns a column of integers with a
  missing value, or with a float, into floats). \<open>read_date\<close> turns the date strings of a
  given calendar into their day numbers.
\<close>

fun cell_of_json :: "json \<Rightarrow> cell" where
  "cell_of_json JNull = NA"
| "cell_of_json (JBool b) = CBool b"
| "cell_of_json (JInt i) = CInt i"
| "cell_of_json (JNum r) = CNum r"
| "cell_of_json (JStr x) = CStr x"
| "cell_of_json j = CObj j"

fun items :: "json \<Rightarrow> error + json list" where
  "items (JArr xs) = Inr xs"
| "items (JObj kvs) = Inr [JObj kvs]"
| "items j = Inl TypeError"

fun fields :: "json \<Rightarrow> error + (string \<times> cell) list" where
  "fields (JObj kvs) = Inr (map (\<lambda>(k, v). (k, cell_of_json v)) kvs)"
| "fields j = Inl TypeError"

definition first_seen :: "'a list \<Rightarrow> 'a list" where
  "first_seen xs = rev (remdups (rev xs))"

definition frame_of_records ::
  "((string \<times> cell) list \<times> cell list) list \<Rightarrow> string list \<Rightarrow> dataframe" where
  "frame_of_records recs meta =
     (let cols = first_seen (concat (map (\<lambda>(r, ms). map fst r) recs)) in
      \<lparr> columns = map CStr (cols @ meta),
        index_names = [],
        rows = map (\<lambda>(i, (r, ms)).
                 ([CInt (int i)],
                  map (\<lambda>c. case map_of r c of Some v \<Rightarrow> v | None \<Rightarrow> NA) cols @ ms))
               (enumerate 0 recs) \<rparr>)"

fun child_records ::
  "string \<Rightarrow> string list \<Rightarrow> json \<Rightarrow> error + ((string \<times> cell) list \<times> cell list) list" where
  "child_records path meta (JObj kvs) =
     (case map_of kvs path of
        None \<Rightarrow> Inl KeyError
      | Some (JArr cs) \<Rightarrow>
          bnd (traverse fields cs) (\<lambda>recs.
          bnd (traverse (\<lambda>m. case map_of kvs m of
                                None \<Rightarrow> Inl KeyError
                              | Some v \<Rightarrow> Inr (cell_of_json v)) meta) (\<lambda>ms.
          if \<exists>r \<in> set recs. \<exists>m \<in> set meta. m \<in> fst ` set r then Inl ValueError
          else Inr (map (\<lambda>r. (r, ms)) recs)))
      | Some j \<Rightarrow> Inl TypeError)"
| "child_records path meta j = Inl TypeError"

fun normalize_flat :: "json \<Rightarrow> string option \<Rightarrow> string list \<Rightarrow> error + dataframe" where
  "normalize_flat data None meta =
     bnd (items data) (\<lambda>xs.
     bnd (traverse fields xs) (\<lambda>recs.
     Inr (frame_of_records (map (\<lambda>r. (r, [])) recs) [])))"
| "normalize_flat data (Some path) meta =
     bnd (items data) (\<lambda>parents.
     bnd (traverse (child_records path meta) parents) (\<lambda>recss.
     Inr (frame_of_records (concat recss) meta)))"

fun read_date :: "(string \<times> int) list \<Rightarrow> cell \<Rightarrow> error + cell" where
  "read_date calendar NA = Inr NA"
| "read_date calendar (CTime t) = Inr (CTime t)"
| "read_date calendar (CStr x) =
     (case map_of calendar x of Some t \<Rightarrow> Inr (CTime t) | None \<Rightarrow> Inl ValueError)"
| "read_date calendar c = Inl TypeError"

text \<open>Days since 1970-01-01 of the dates the examples use.\<close>

definition calendar :: "(string \<times> int) list" where
  "calendar =
     [(''2020-09-24'', 18529), (''2020-09-25'', 18530), (''2020-09-28'', 18533)]"

text \<open>
  \<open>server r\<close> answers every request with the response \<open>r\<close>; \<open>ok payload\<close> is the
  response with status 200 carrying \<open>payload\<close>, \<open>failed status text\<close> one with
  another status and a body that is not JSON.
\<close>

definition server :: "response \<Rightarrow> env" where
  "server r =
     \<lparr> transport = (\<lambda>w url ps. r),
       json_normalize = normalize_flat,
       to_datetime = traverse (read_date calendar),
       to_datetime_scalar = (\<lambda>j. read_date calendar (cell_of_json j)) \<rparr>"

definition ok :: "json \<Rightarrow> response" where
  "ok payload = \<lparr> status_code = 200, body = [], decoded = Some payload, elapsed = 1 / 100 \<rparr>"

definition failed :: "int \<Rightarrow> string \<Rightarrow> response" where
  "failed status text = \<lparr> status_code = status, body = text, decoded = None, elapsed = 1 / 100 \<rparr>"

definition world0 :: world where
  "world0 = \<lparr> clock = 1000, sent = [], printed = [] \<rparr>"

text \<open>Payloads the worked examples use.\<close>

definition prices :: json where
  "prices = JObj [(''stockPricesList'', JArr
     [JObj [(''d'', JStr ''2020-09-24''), (''c'', JNum (21 / 2)), (''v'', JInt 100)],
      JObj [(''d'', JStr ''2020-09-28''), (''c'', JNum 11), (''v'', JInt 300)],
      JObj [(''d'', JStr ''2020-09-25''), (''c'', JNum 12), (''v'', JInt 200)]])]"

definition prices_of_a_day :: json where
  "prices_of_a_day = JObj [(''stockPricesList'', JArr
     [JObj [(''i'', JInt 7), (''d'', JStr ''2020-09-25''), (''c'', JNum 12)],
      JObj [(''i'', JInt 3), (''d'', JStr ''2020-09-25''), (''c'', JNum 40)]])]"

definition prices_of_a_list :: json where
  "prices_of_a_list = JObj [(''stockPricesArrayList'', JArr
     [JObj [(''instrument'', JInt 2), (''stockPricesList'', JArr
        [JObj [(''d'', JStr ''2020-09-24''), (''c'', JNum 5), (''h'', JNum (11 / 2))],
         JObj [(''d'', JStr ''2020-09-25''), (''c'', JNum 6)]])]])]"



definition kpi_values :: json where
  "kpi_values = JObj [(''kpis'', JArr
     [JObj [(''KpiId'', JInt 10), (''values'', JArr
        [JObj [(''y'', JInt 2020), (''p'', JInt 1), (''v'', JNum 5)],
         JObj [(''y'', JInt 2021), (''p'', JInt 1), (''v'', JNum 6)]])],
      JObj [(''KpiId'', JInt 11), (''values'', JArr
        [JObj [(''y'', JInt 2020), (''p'', JInt 1), (''v'', JNum 7)]])]])]"

definition kpi_values_of_a_period :: json where
  "kpi_values_of_a_period = JObj [(''kpis'', JArr
     [JObj [(''KpiId'', JInt 10), (''values'', JArr
        [JObj [(''y'', JInt 2020), (''p'', JInt 1), (''v'', JNum 5)]])],
      JObj [(''KpiId'', JInt 11), (''values'', JArr
        [JObj [(''y'', JInt 2020), (''p'', JInt 1), (''v'', JNum 7)]])]])]"

section \<open>Notions the statements use\<close>

text \<open>What a method leaves behind: the session and the world after it ran.\<close>

definition session_after :: "'a \<times> session \<times> world \<Rightarrow> session" where
  "session_after out = fst (snd out)"

definition world_after :: "'a \<times> session \<times> world \<Rightarrow> world" where
  "world_after out = snd (snd out)"

text \<open>
  The parameter builder as a specification would word it, to compare with
  \<^const>\<open>get_params\<close>: the recognised override keys, the overrides that count (those
  with a recognised key and a value other than \<open>None\<close>) under their server keys and in
  their encoding, and the diagnostics (one for each unrecognised key that has a value).
\<close>

definition recognized :: "string list" where
  "recognized = [''from_date'', ''to'', ''date'', ''instList'']"

definition spec_overrides :: "(string \<times> arg) list \<Rightarrow> params" where
  "spec_overrides kwargs =
     [(if k = ''from_date'' then ''from'' else k,
       if k = ''instList''
       then AStr (join '','' (case str_each v of Inr xs \<Rightarrow> xs | Inl e \<Rightarrow> []))
       else v).
      (k, v) \<leftarrow> kwargs, v \<noteq> ANone, k \<in> set recognized]"

definition spec_diagnostics :: "(string \<times> arg) list \<Rightarrow> event list" where
  "spec_diagnostics kwargs =
     [PrintUnknownParam k v. (k, v) \<leftarrow> kwargs, v \<noteq> ANone, k \<notin> set recognized]"

text \<open>An \<open>instList\<close> override can be joined when it is something Python can iterate.\<close>

fun iterable :: "arg \<Rightarrow> bool" where
  "iterable (AInt i) = False"
| "iterable v = True"

definition inst_list_iterable :: "(string \<times> arg) list \<Rightarrow> bool" where
  "inst_list_iterable kwargs = list_all (\<lambda>(k, v). k = ''instList'' \<longrightarrow> iterable v) kwargs"

text \<open>The \<open>max_count\<close> a method writes into the session's parameters, if it writes one.\<close>

fun written :: "operation \<Rightarrow> arg" where
  "written (GetKpiSummary ins_id report_type max_count) = max_count"
| "written (GetInstrumentReport ins_id report_type max_count) = max_count"
| "written op = ANone"

text \<open>
  What the statements about tables assume of pandas: a table it reads from a payload
  is rectangular (every row has a cell under every column), and \<^verbatim>\<open>pd.to_datetime\<close>
  returns as many values as it was given.
\<close>

definition rectangular :: "dataframe \<Rightarrow> bool" where
  "rectangular df = list_all (\<lambda>(k, r). length r = length (columns df)) (rows df)"

definition pandas_env :: "env \<Rightarrow> bool" where
  "pandas_env E =
     ((\<forall>v path meta df. json_normalize E v path meta = Inr df \<longrightarrow> rectangular df) \<and>
      (\<forall>cs vs. to_datetime E cs = Inr vs \<longrightarrow> length vs = length cs))"

text \<open>
  The order \<^verbatim>\<open>sort_index\<close> sorts by: \<open>key_le True\<close> is ascending, \<open>key_le False\<close>
  descending, missing values last in both.
\<close>

definition key_le :: "bool \<Rightarrow> cell list \<Rightarrow> cell list \<Rightarrow> bool" where
  "key_le asc k k' = (map (cell_key asc) k \<le> map (cell_key asc) k')"

text \<open>
  The table pandas reads from what a call returned: the payload under the envelope key
  \<open>key\<close>, read with the given \<open>record_path\<close> and \<open>meta\<close>.
\<close>

definition payload_table ::
  "env \<Rightarrow> (error + api_result) \<times> session \<times> world \<Rightarrow> string \<Rightarrow> string option \<Rightarrow> string list
     \<Rightarrow> error + dataframe" where
  "payload_table E called key path meta =
     bnd (fst called) (\<lambda>json_data.
     bnd (subscript json_data key) (\<lambda>v.
     json_normalize E v path meta))"

text \<open>The cells of a row under the columns other than \<open>c\<close>, in column order.\<close>

definition cells_except :: "dataframe \<Rightarrow> cell \<Rightarrow> cell list \<Rightarrow> cell list" where
  "cells_except df c r = map snd (filter (\<lambda>(l, x). l \<noteq> c) (zip (columns df) r))"

text \<open>
  \<open>indexed_by_date names df0 vs df\<close>: \<open>df\<close> is the payload table \<open>df0\<close> with its
  columns renamed by \<open>names\<close> and the \<open>date\<close> column made the index. Row by row:
  each row of the payload is a row of \<open>df\<close>, its index the coerced date of that row
  (\<open>vs\<close> lists the coerced dates in payload order), its cells the other cells of that
  row; there are no other rows. The rows come in descending order of the index: for any
  two timestamps in it, the later one comes first.
\<close>

definition indexed_by_date :: "(cell \<times> cell) list \<Rightarrow> dataframe \<Rightarrow> cell list \<Rightarrow> dataframe \<Rightarrow> bool" where
  "indexed_by_date names df0 vs df =
     (index_names df = [CStr ''date''] \<and>
      columns df = filter (\<lambda>c. c \<noteq> CStr ''date'') (columns (rename names df0)) \<and>
      mset (rows df) =
        mset (map (\<lambda>((k, r), v). ([v], cells_except (rename names df0) (CStr ''date'') r))
                (zip (rows df0) vs)) \<and>
      sorted_wrt (key_le False) (map fst (rows df)) \<and>
      (\<forall>i j a b. i < j \<and> j < length (rows df) \<and>
          fst (rows df ! i) = [CTime a] \<and> fst (rows df ! j) = [CTime b] \<longrightarrow> b \<le> a))"

text \<open>
  \<open>indexed_by_ins_id names df0 vs df\<close>: \<open>df\<close> is \<open>df0\<close> renamed and indexed by
  \<open>insId\<close>. Each row of the payload is a row of \<open>df\<close>, its index the \<open>insId\<close>
  of that row, its cells the other cells of that row with the date replaced by the
  coerced date; there are no other rows. The rows come in ascending order of the index.
\<close>

definition indexed_by_ins_id :: "(cell \<times> cell) list \<Rightarrow> dataframe \<Rightarrow> cell list \<Rightarrow> dataframe \<Rightarrow> bool" where
  "indexed_by_ins_id names df0 vs df =
     (index_names df = [CStr ''insId''] \<and>
      columns df = filter (\<lambda>c. c \<noteq> CStr ''insId'') (columns (rename names df0)) \<and>
      mset (rows df) =
        mset (map (\<lambda>((k, r), v).
                     ([cell_at (rename names df0) r (CStr ''insId'')],
                      cells_except (rename names df0) (CStr ''insId'')
                        (set_cell (rename names df0) (CStr ''date'') r v)))
                (zip (rows df0) vs)) \<and>
      sorted_wrt (key_le True) (map fst (rows df)))"




section \<open>The parameter builder: overrides, encodings, diagnostics\<close>

lemma spec_overrides_Nil: "spec_overrides [] = []"
  by (simp add: spec_overrides_def)

lemma spec_overrides_Cons:
  "spec_overrides ((k, v) # kw) =
     (if v \<noteq> ANone \<and> k \<in> set recognized
      then [(if k = ''from_date'' then ''from'' else k,
             if k = ''instList''
             then AStr (join '','' (case str_each v of Inr xs \<Rightarrow> xs | Inl e \<Rightarrow> []))
             else v)]
      else []) @ spec_overrides kw"
  by (simp add: spec_overrides_def)

lemma spec_diagnostics_Nil: "spec_diagnostics [] = []"
  by (simp add: spec_diagnostics_def)

lemma spec_diagnostics_Cons:
  "spec_diagnostics ((k, v) # kw) =
     (if v \<noteq> ANone \<and> k \<notin> set recognized then [PrintUnknownParam k v] else [])
     @ spec_diagnostics kw"
  by (simp add: spec_diagnostics_def)

lemma spec_overrides_keys:
  "fst ` set (spec_overrides kw) \<subseteq> {''from'', ''to'', ''date'', ''instList''}"
  by (auto simp: spec_overrides_def recognized_def split: if_splits)

lemma str_each_iterable: "iterable v \<Longrightarrow> v \<noteq> ANone \<Longrightarrow> \<exists>xs. str_each v = Inr xs"
  by (cases v) auto

lemma overlay_step:
  "map_of (AList.update k v ps) ++ M = map_of ps ++ (map_of [(k, v)] ++ M)"
  by (auto simp: update_conv' fun_eq_iff map_add_def split: option.splits)

lemma get_params_loop_overlay:
  "inst_list_iterable kw \<Longrightarrow>
   \<exists>ps'. get_params_loop ps out kw = (Inr ps', out @ spec_diagnostics kw) \<and>
     map_of ps' = map_of ps ++ map_of (rev (spec_overrides kw))"
proof (induction kw arbitrary: ps out)
  case Nil
  then show ?case by (simp add: spec_diagnostics_Nil spec_overrides_Nil)
next
  case (Cons a kw)
  obtain k v where a: "a = (k, v)" by (cases a)
  from Cons.prems have it: "inst_list_iterable kw" and kv: "k = ''instList'' \<Longrightarrow> iterable v"
    by (auto simp: inst_list_iterable_def a)
  note IH = Cons.IH[OF it]
  show ?case
  proof (cases "v = ANone")
    case True
    then show ?thesis using IH[of ps out]
      by (simp add: a spec_diagnostics_Cons spec_overrides_Cons)
  next
    case False
    consider "k = ''from_date''" | "k = ''to'' \<or> k = ''date''" | "k = ''instList''"
      | "k \<notin> set recognized"
      by (auto simp: recognized_def)
    then show ?thesis
    proof cases
      case 1
      then have r: "k \<in> set recognized" by (simp add: recognized_def)
      show ?thesis using IH[of "AList.update ''from'' v ps" out] False 1 r
        by (simp add: a spec_diagnostics_Cons spec_overrides_Cons overlay_step)
    next
      case 2
      then have r: "k \<in> set recognized" by (auto simp add: recognized_def)
      from 2 have n: "k \<noteq> ''from_date''" "k \<noteq> ''instList''" by auto
      show ?thesis using IH[of "AList.update k v ps" out] False 2 r n
        by (simp add: a spec_diagnostics_Cons spec_overrides_Cons overlay_step)
    next
      case 3
      then have r: "k \<in> set recognized" by (simp add: recognized_def)
      from str_each_iterable[OF kv[OF 3] False] obtain xs where xs: "str_each v = Inr xs"
        by blast
      show ?thesis
        using IH[of "AList.update k (AStr (join '','' xs)) ps" out] False 3 xs r
        by (simp add: a spec_diagnostics_Cons spec_overrides_Cons overlay_step)
    next
      case 4
      then have n: "k \<noteq> ''from_date''" "k \<noteq> ''to''" "k \<noteq> ''date''" "k \<noteq> ''instList''"
        by (auto simp: recognized_def)
      show ?thesis using IH[of ps "out @ [PrintUnknownParam k v]"] False 4 n
        by (simp add: a spec_diagnostics_Cons spec_overrides_Cons)
    qed
  qed
qed

lemma not_overridden:
  assumes "k \<notin> {''from'', ''to'', ''date'', ''instList''}"
  shows "(m ++ map_of (rev (spec_overrides kw))) k = m k"
proof -
  from assms spec_overrides_keys[of kw] have "k \<notin> fst ` set (rev (spec_overrides kw))"
    by auto
  then have "map_of (rev (spec_overrides kw)) k = None"
    by (simp add: map_of_eq_None_iff)
  then show ?thesis by (simp add: map_add_def)
qed

text \<open>
  Claim C1, as the code has it. The recognised override keys are \<open>from_date\<close>,
  \<open>to\<close>, \<open>date\<close> and \<open>instList\<close> (the key is \<open>to\<close>, not \<open>to_date\<close>). Whenever
  the \<open>instList\<close> override, if there is one, can be iterated, the builder returns the
  session's parameters overlaid with the overrides that have a value, later ones winning:
  \<open>from_date\<close> under the server key \<open>from\<close>, \<open>to\<close> and \<open>date\<close> verbatim,
  \<open>instList\<close> joined with commas in input order. Every other key that has a value is
  reported by one diagnostic, in input order, and changes nothing; an override whose
  value is \<open>None\<close> is skipped without a diagnostic. No override is ever emitted under
  \<open>from_date\<close> or \<open>to_date\<close>.
\<close>

theorem get_params_overlay:
  assumes "inst_list_iterable kwargs"
  shows "\<exists>ps. get_params s kwargs = (Inr ps, spec_diagnostics kwargs) \<and>
           map_of ps = map_of (base_params s) ++ map_of (rev (spec_overrides kwargs)) \<and>
           map_of ps ''from_date'' = map_of (base_params s) ''from_date'' \<and>
           map_of ps ''to_date'' = map_of (base_params s) ''to_date''"
proof -
  from get_params_loop_overlay[OF assms, of "base_params s" "[]"]
  obtain ps where ps: "get_params s kwargs = (Inr ps, spec_diagnostics kwargs)"
    and m: "map_of ps = map_of (base_params s) ++ map_of (rev (spec_overrides kwargs))"
    by (auto simp: get_params_def)
  have "map_of ps ''from_date'' = map_of (base_params s) ''from_date''"
    unfolding m by (rule not_overridden) simp
  moreover have "map_of ps ''to_date'' = map_of (base_params s) ''to_date''"
    unfolding m by (rule not_overridden) simp
  ultimately show ?thesis using ps m by blast
qed

lemma str_int_ids: "str_int 2 = ''2''" "str_int 3 = ''3''" "str_int 4 = ''4''" "str_int 5 = ''5''"
  by code_simp+

theorem get_params_overlay_witness:
  "inst_list_iterable
     [(''from_date'', AStr ''2022-01-01''), (''to'', AStr ''2023-01-01''),
      (''instList'', AIds [2, 3, 4, 5]), (''date'', ANone), (''limit'', AInt 7)] \<and>
   (\<exists>ps. get_params (init ''key'')
            [(''from_date'', AStr ''2022-01-01''), (''to'', AStr ''2023-01-01''),
             (''instList'', AIds [2, 3, 4, 5]), (''date'', ANone), (''limit'', AInt 7)]
          = (Inr ps, [PrintUnknownParam ''limit'' (AInt 7)]) \<and>
      map_of ps ''from'' = Some (AStr ''2022-01-01'') \<and>
      map_of ps ''to'' = Some (AStr ''2023-01-01'') \<and>
      map_of ps ''instList'' = Some (AStr ''2,3,4,5'') \<and>
      map_of ps ''date'' = None \<and>
      map_of ps ''maxCount'' = Some (AInt 20) \<and>
      map_of ps ''from_date'' = None)"
proof -
  let ?kw = "[(''from_date'', AStr ''2022-01-01''), (''to'', AStr ''2023-01-01''),
      (''instList'', AIds [2, 3, 4, 5]), (''date'', ANone), (''limit'', AInt 7)]"
  have it: "inst_list_iterable ?kw"
    by (simp add: inst_list_iterable_def)
  have d: "spec_diagnostics ?kw = [PrintUnknownParam ''limit'' (AInt 7)]"
    by (simp add: spec_diagnostics_def recognized_def)
  have o: "spec_overrides ?kw =
      [(''from'', AStr ''2022-01-01''), (''to'', AStr ''2023-01-01''),
       (''instList'', AStr ''2,3,4,5'')]"
    by (simp add: spec_overrides_def recognized_def str_int_ids)
  from get_params_overlay[OF it, of "init ''key''"] show ?thesis
    unfolding d o using it by (auto simp: init_def map_add_def)
qed

text \<open>
  Claim C1 as it was stated fails on \<open>to_date\<close>: that override is not used verbatim,
  it is reported as unknown and left out.
\<close>

theorem to_date_override_dropped:
  "get_params (init ''key'') [(''to_date'', AStr ''2023-01-01'')] =
     (Inr [(''authKey'', AStr ''key''), (''maxYearCount'', AInt 20),
           (''maxR12QCount'', AInt 40), (''maxCount'', AInt 20)],
      [PrintUnknownParam ''to_date'' (AStr ''2023-01-01'')])"
  by (simp add: get_params_def init_def)

section \<open>The index helper is a no-op on a missing column\<close>

text \<open>
  Claim C8. When a declared index column (the single one, or any of a list) is not
  among the table's columns, \<^verbatim>\<open>_set_index\<close> raises nothing and returns the table as
  it was: same columns, same rows, same index.
\<close>

theorem set_index_absent_noop:
  assumes "case index of
             Single idx \<Rightarrow> idx \<notin> set (columns df)
           | Multi idxs \<Rightarrow> \<exists>idx \<in> set idxs. idx \<notin> set (columns df)"
  shows "set_index df index ascending = Inr df"
  using assms by (cases index) auto

theorem set_index_absent_noop_witness:
  "CStr ''period'' \<notin> set [CStr ''year'', CStr ''kpiValue''] \<and>
   set_index
     \<lparr> columns = [CStr ''year'', CStr ''kpiValue''], index_names = [],
       rows = [([CInt 0], [CInt 2020, CNum 5]), ([CInt 1], [CInt 2021, CNum 7])] \<rparr>
     (Multi [CStr ''year'', CStr ''period'']) False =
   Inr \<lparr> columns = [CStr ''year'', CStr ''kpiValue''], index_names = [],
         rows = [([CInt 0], [CInt 2020, CNum 5]), ([CInt 1], [CInt 2021, CNum 7])] \<rparr>"
  using set_index_absent_noop
    [where index = "Multi [CStr ''year'', CStr ''period'']"
       and df = "\<lparr> columns = [CStr ''year'', CStr ''kpiValue''], index_names = [],
           rows = [([CInt 0], [CInt 2020, CNum 5]), ([CInt 1], [CInt 2021, CNum 7])] \<rparr>"
       and ascending = False]
  by simp

section \<open>What a method leaves of the session\<close>

lemma call_api_session:
  "\<exists>t. session_after (call_api E s w url kwargs) = s\<lparr>last_api_call := t\<rparr>"
proof (cases "session_after (call_api E s w url kwargs) = s")
  case True
  then have "session_after (call_api E s w url kwargs) = s\<lparr>last_api_call := last_api_call s\<rparr>"
    by simp
  then show ?thesis by blast
next
  case False
  then show ?thesis
    by (auto simp add: call_api_def session_after_def Let_def
        split: prod.splits sum.splits option.splits if_splits)
qed

lemma and_then_session: "session_after (and_then c f) = session_after c"
  by (simp add: and_then_def session_after_def split: prod.splits sum.splits)

lemma and_then_world: "world_after (and_then c f) = world_after c"
  by (simp add: and_then_def world_after_def split: prod.splits sum.splits)

lemma returning_session: "session_after (returning f out) = session_after out"
  by (simp add: returning_def session_after_def split: prod.splits)

lemma returning_world: "world_after (returning f out) = world_after out"
  by (simp add: returning_def world_after_def split: prod.splits)

lemma get_instruments_updated_session:
  "session_after (get_instruments_updated E s w) =
     session_after (call_api E s w ''instruments/updated'' [])"
  by (simp add: get_instruments_updated_def session_after_def split: prod.splits sum.splits)

lemma get_instrument_descriptions_session:
  "session_after (get_instrument_descriptions E s w ins_ids) =
     (if length ins_ids > 50 then s
      else session_after (call_api E s w ''instruments/description'' [(''instList'', AIds ins_ids)]))"
  by (simp add: get_instrument_descriptions_def and_then_session) (simp add: session_after_def)

lemma get_kpi_history_session:
  "session_after (get_kpi_history E s w ins_id kpi_id report_type price_type max_count) =
     session_after (call_api E s w
       (''instruments/'' @ str_int ins_id @ ''/kpis/'' @ str_int kpi_id @ ''/''
        @ report_type @ ''/'' @ price_type @ ''/history'') [])"
  by (simp add: get_kpi_history_def Let_def session_after_def split: prod.splits sum.splits)

lemma run_session:
  "\<exists>t. session_after (run E s w op) = (set_max_count (written op) s)\<lparr>last_api_call := t\<rparr>"
proof -
  have same: "\<exists>t. s = s\<lparr>last_api_call := t\<rparr>"
    by (rule exI[of _ "last_api_call s"]) simp
  have nop: "set_max_count ANone s = s" by (simp add: set_max_count_def)
  show ?thesis
  proof (cases op)
    case GetInstrumentsUpdated
    then show ?thesis
      using call_api_session[of E s w "''instruments/updated''" "[]"]
      by (simp add: returning_session get_instruments_updated_session nop)
  next
    case (GetInstrumentDescriptions ids)
    then show ?thesis
      using call_api_session[of E s w "''instruments/description''" "[(''instList'', AIds ids)]"] same
      by (simp add: returning_session get_instrument_descriptions_session nop)
  next
    case (GetKpiHistory ins_id kpi_id report_type price_type max_count)
    then show ?thesis
      using call_api_session[of E s w "''instruments/'' @ str_int ins_id @ ''/kpis/'' @ str_int kpi_id @ ''/''
        @ report_type @ ''/'' @ price_type @ ''/history''" "[]"]
      by (simp add: returning_session get_kpi_history_session nop)
  qed (simp_all add: returning_session and_then_session nop
      get_branches_def get_countries_def get_markets_def get_sectors_def get_translation_metadata_def
      get_instruments_def get_kpi_summary_def get_kpi_data_instrument_def get_kpi_data_all_instruments_def
      get_updated_kpis_def get_kpi_metadata_def get_instrument_report_def get_instrument_reports_def
      get_instrument_report_list_def get_reports_metadata_def get_report_calendar_def
      get_instrument_stock_prices_def get_instrument_stock_prices_list_def
      get_instruments_stock_prices_last_def get_stock_prices_date_def get_stock_splits_def
      call_api_session)
qed

text \<open>
  Claim C3, as the code has it. Whatever the server answers and whatever the method
  returns or raises, the session afterwards has the API key, the URL root and the call
  rate it had before, and the base parameters it had before except in one case:
  \<^verbatim>\<open>get_kpi_summary\<close> and \<^verbatim>\<open>get_instrument_report\<close>, called with a \<open>max_count\<close>
  other than \<open>None\<close>, store it under \<open>maxCount\<close> in the session's base parameters,
  where it stays for the calls that follow. The entries \<open>authKey\<close>, \<open>maxYearCount\<close>
  and \<open>maxR12QCount\<close> are never changed. The only other field a method changes is the
  time of the last call.
\<close>

theorem session_frame:
  "api_key (session_after (run E s w op)) = api_key s \<and>
   url_root (session_after (run E s w op)) = url_root s \<and>
   api_calls_per_second (session_after (run E s w op)) = api_calls_per_second s \<and>
   base_params (session_after (run E s w op)) =
     (case op of
        GetKpiSummary ins_id report_type max_count \<Rightarrow>
          if max_count \<noteq> ANone then AList.update ''maxCount'' max_count (base_params s)
          else base_params s
      | GetInstrumentReport ins_id report_type max_count \<Rightarrow>
          if max_count \<noteq> ANone then AList.update ''maxCount'' max_count (base_params s)
          else base_params s
      | _ \<Rightarrow> base_params s) \<and>
   (\<forall>k. k \<noteq> ''maxCount'' \<longrightarrow>
      map_of (base_params (session_after (run E s w op))) k = map_of (base_params s) k)"
proof -
  obtain t where t: "session_after (run E s w op) = (set_max_count (written op) s)\<lparr>last_api_call := t\<rparr>"
    using run_session by blast
  show ?thesis unfolding t
    by (cases op) (simp_all add: set_max_count_def update_conv')
qed

theorem session_frame_witness:
  "base_params (session_after (run (server (ok (JObj []))) (init ''key'') world0 GetBranches)) =
     [(''authKey'', AStr ''key''), (''maxYearCount'', AInt 20), (''maxR12QCount'', AInt 40),
      (''maxCount'', AInt 20)] \<and>
   base_params (session_after
      (run (server (ok (JObj []))) (init ''key'') world0 (GetInstrumentReport 3 ''year'' (AInt 5)))) =
     [(''authKey'', AStr ''key''), (''maxYearCount'', AInt 20), (''maxR12QCount'', AInt 40),
      (''maxCount'', AInt 5)] \<and>
   api_calls_per_second (session_after
      (run (server (ok (JObj []))) (init ''key'') world0 (GetInstrumentReport 3 ''year'' (AInt 5)))) = 10"
  using session_frame[of "server (ok (JObj []))" "init ''key''" world0 GetBranches]
    session_frame[of "server (ok (JObj []))" "init ''key''" world0 "GetInstrumentReport 3 ''year'' (AInt 5)"]
  by (simp add: init_def)

text \<open>
  Claim C3 as it was stated fails for \<^verbatim>\<open>get_kpi_summary\<close> with \<open>max_count = 5\<close>: the
  base parameters of the session are not what they were.
\<close>

theorem kpi_summary_changes_session:
  "base_params (session_after
      (run (server (ok (JObj []))) (init ''key'') world0 (GetKpiSummary 3 ''year'' (AInt 5)))) =
     [(''authKey'', AStr ''key''), (''maxYearCount'', AInt 20), (''maxR12QCount'', AInt 40),
      (''maxCount'', AInt 5)] \<and>
   base_params (session_after
      (run (server (ok (JObj []))) (init ''key'') world0 (GetKpiSummary 3 ''year'' (AInt 5)))) \<noteq>
   base_params (init ''key'')"
proof -
  obtain t where t: "session_after (run (server (ok (JObj []))) (init ''key'') world0 (GetKpiSummary 3 ''year'' (AInt 5)))
     = (set_max_count (written (GetKpiSummary 3 ''year'' (AInt 5))) (init ''key''))\<lparr>last_api_call := t\<rparr>"
    using run_session by blast
  show ?thesis unfolding t by (simp add: set_max_count_def init_def)
qed

section \<open>The requests a method issues\<close>

lemma get_params_no_kwargs: "get_params s [] = (Inr (base_params s), [])"
  by (simp add: get_params_def)

lemma get_params_inst_list:
  "get_params s [(''instList'', AIds ids)] =
     (Inr (AList.update ''instList'' (AStr (join '','' (map str_int ids))) (base_params s)), [])"
  by (simp add: get_params_def)

lemma call_api_sent:
  assumes "api_calls_per_second s \<noteq> 0" and "get_params s kwargs = (Inr ps, out)"
  shows "sent (world_after (call_api E s w url kwargs)) = sent w @ [(url_root s @ url, ps)]"
  using assms
  by (simp add: call_api_def world_after_def Let_def print_def sleep_def split: option.splits)

lemma print_sent: "sent (print e w) = sent w"
  by (simp add: print_def)

lemma get_kpi_history_sent:
  "sent (world_after (get_kpi_history E s w ins_id kpi_id report_type price_type max_count)) =
   sent (world_after (call_api E s w
       (''instruments/'' @ str_int ins_id @ ''/kpis/'' @ str_int kpi_id @ ''/''
        @ report_type @ ''/'' @ price_type @ ''/history'') []))"
  by (simp add: get_kpi_history_def Let_def world_after_def print_sent split: prod.splits sum.splits)

text \<open>
  Claim C10. \<^verbatim>\<open>get_kpi_history\<close> does the same for any two values of \<open>max_count\<close>:
  same result, same session, same world, hence the same request. The one request it
  issues carries the session's base parameters; the parameter set built from
  \<open>max_count\<close> is not passed on.
\<close>

theorem kpi_history_ignores_max_count:
  "get_kpi_history E s w ins_id kpi_id report_type price_type max_count =
     get_kpi_history E s w ins_id kpi_id report_type price_type max_count' \<and>
   (api_calls_per_second s \<noteq> 0 \<longrightarrow>
      sent (world_after (get_kpi_history E s w ins_id kpi_id report_type price_type max_count)) =
        sent w @
        [(url_root s @ (''instruments/'' @ str_int ins_id @ ''/kpis/'' @ str_int kpi_id @ ''/''
            @ report_type @ ''/'' @ price_type @ ''/history''),
          base_params s)])"
proof (intro conjI impI)
  show "get_kpi_history E s w ins_id kpi_id report_type price_type max_count =
     get_kpi_history E s w ins_id kpi_id report_type price_type max_count'"
    by (simp add: get_kpi_history_def Let_def)
next
  assume "api_calls_per_second s \<noteq> 0"
  from call_api_sent[OF this get_params_no_kwargs]
  show "sent (world_after (get_kpi_history E s w ins_id kpi_id report_type price_type max_count)) =
        sent w @
        [(url_root s @ (''instruments/'' @ str_int ins_id @ ''/kpis/'' @ str_int kpi_id @ ''/''
            @ report_type @ ''/'' @ price_type @ ''/history''),
          base_params s)]"
    by (simp only: get_kpi_history_sent)
qed

theorem kpi_history_ignores_max_count_witness:
  "get_kpi_history (server (ok (JObj [(''values'', JArr [])]))) (init ''key'') world0 3 10
      ''year'' ''mean'' (AInt 5) =
   get_kpi_history (server (ok (JObj [(''values'', JArr [])]))) (init ''key'') world0 3 10
      ''year'' ''mean'' ANone \<and>
   api_calls_per_second (init ''key'') \<noteq> 0 \<and>
   sent (world_after
     (get_kpi_history (server (ok (JObj [(''values'', JArr [])]))) (init ''key'') world0 3 10
        ''year'' ''mean'' (AInt 5))) =
     [(''https://apiservice.borsdata.se/v1/instruments/3/kpis/10/year/mean/history'',
       [(''authKey'', AStr ''key''), (''maxYearCount'', AInt 20), (''maxR12QCount'', AInt 40),
        (''maxCount'', AInt 20)])]"
proof -
  have n: "str_int 3 = ''3''" "str_int 10 = ''10''" by code_simp+
  have c: "api_calls_per_second (init ''key'') \<noteq> 0" by (simp add: init_def)
  note t = kpi_history_ignores_max_count
    [of "server (ok (JObj [(''values'', JArr [])]))" "init ''key''" world0 3 10
        "''year''" "''mean''" "AInt 5" ANone]
  from t have a: "get_kpi_history (server (ok (JObj [(''values'', JArr [])]))) (init ''key'') world0 3 10
      ''year'' ''mean'' (AInt 5) =
   get_kpi_history (server (ok (JObj [(''values'', JArr [])]))) (init ''key'') world0 3 10
      ''year'' ''mean'' ANone"
    by (rule conjunct1)
  from t c have b: "sent (world_after
     (get_kpi_history (server (ok (JObj [(''values'', JArr [])]))) (init ''key'') world0 3 10
        ''year'' ''mean'' (AInt 5))) =
     sent world0 @
        [(url_root (init ''key'') @ (''instruments/'' @ str_int 3 @ ''/kpis/'' @ str_int 10 @ ''/''
            @ ''year'' @ ''/'' @ ''mean'' @ ''/history''),
          base_params (init ''key''))]"
    by blast
  show ?thesis
  proof (intro conjI)
    show "sent (world_after
     (get_kpi_history (server (ok (JObj [(''values'', JArr [])]))) (init ''key'') world0 3 10
        ''year'' ''mean'' (AInt 5))) =
     [(''https://apiservice.borsdata.se/v1/instruments/3/kpis/10/year/mean/history'',
       [(''authKey'', AStr ''key''), (''maxYearCount'', AInt 20), (''maxR12QCount'', AInt 40),
        (''maxCount'', AInt 20)])]"
      unfolding b by (simp add: n init_def world0_def)
  qed (rule a, rule c)
qed

section \<open>A response whose status is not 200\<close>

text \<open>
  \<^verbatim>\<open>_call_api\<close> returns the response object itself when the status is not 200, and
  issues no second request. Every method then subscripts what it got, which a response
  object does not support.
\<close>

lemma fst_and_then:
  "fst (and_then c f) = (case fst c of Inl e \<Rightarrow> Inl e | Inr j \<Rightarrow> f j)"
  by (simp add: and_then_def split: prod.splits sum.splits)

lemma fst_returning: "fst (returning f out) = map_sum id f (fst out)"
  by (simp add: returning_def split: prod.splits)

lemma call_api_result:
  assumes "api_calls_per_second s \<noteq> 0" and "get_params s kwargs = (Inr ps, out)"
  shows "fst (call_api E s w url kwargs) =
     (let w2 = (if clock w - last_api_call s < 1 / of_int (api_calls_per_second s)
                then sleep (1 / of_int (api_calls_per_second s) - (clock w - last_api_call s)) w
                else w)\<lparr>printed := printed w @ out\<rparr>;
          r = transport E w2 (url_root s @ url) ps
      in if status_code r \<noteq> 200 then Inr (Response r)
         else case decoded r of None \<Rightarrow> Inl JSONDecodeError | Some j \<Rightarrow> Inr (Json j))"
  using assms
  by (simp add: call_api_def Let_def sleep_def split: option.splits)

lemma call_api_refused:
  assumes "api_calls_per_second s \<noteq> 0" and "get_params s kwargs = (Inr ps, out)"
    and "\<And>w url ps. status_code (transport E w url ps) \<noteq> 200"
  shows "\<exists>r. fst (call_api E s w url kwargs) = Inr (Response r) \<and> status_code r \<noteq> 200"
  using assms(3) by (simp add: call_api_result[OF assms(1,2)] Let_def)

lemma get_params_dates:
  "\<exists>ps out. get_params s [(''from_date'', a), (''to'', b)] = (Inr ps, out)"
  by (simp add: get_params_def)

lemma get_params_dates_list:
  "\<exists>ps out. get_params s [(''from_date'', a), (''to'', b), (''instList'', AIds ids)] = (Inr ps, out)"
  by (simp add: get_params_def)

lemma get_params_date:
  "\<exists>ps out. get_params s [(''date'', a)] = (Inr ps, out)"
  by (simp add: get_params_def)

lemma subscript_response: "subscript (Response r) key = Inl TypeError"
  by simp

lemma refused_then:
  assumes "\<exists>r. fst c = Inr (Response r) \<and> status_code r \<noteq> 200"
  shows "fst (and_then c (\<lambda>json_data. bnd (subscript json_data key) (f json_data))) = Inl TypeError"
  using assms by (auto simp: fst_and_then bnd_def)


lemma fst_get_instruments_updated:
  "fst (get_instruments_updated E s w) =
    (case fst (call_api E s w ''instruments/updated'' []) of
       Inl e \<Rightarrow> Inl e
     | Inr json_data \<Rightarrow>
         bnd (subscript json_data ''instruments'') (\<lambda>v.
         bnd (json_normalize E v None []) (\<lambda>df.
         bnd (parse_date E df (CStr ''updatedAt'')) (\<lambda>df.
         set_index df (Single (CStr ''insId'')) True))))"
  by (simp add: get_instruments_updated_def split: prod.splits sum.splits)

lemma fst_get_kpi_history:
  "fst (get_kpi_history E s w ins_id kpi_id report_type price_type max_count) =
    (case fst (call_api E s w
       (''instruments/'' @ str_int ins_id @ ''/kpis/'' @ str_int kpi_id @ ''/''
        @ report_type @ ''/'' @ price_type @ ''/history'') []) of
       Inl e \<Rightarrow> Inl e
     | Inr json_data \<Rightarrow>
         bnd (subscript json_data ''values'') (\<lambda>v.
         bnd (json_normalize E v None []) (\<lambda>df.
         set_index
           (rename [(CStr ''y'', CStr ''year''), (CStr ''p'', CStr ''period''),
                    (CStr ''v'', CStr ''kpiValue'')] df)
           (Multi [CStr ''year'', CStr ''period'']) False)))"
  by (simp add: get_kpi_history_def Let_def bnd_def split: prod.splits sum.splits)

lemma set_max_count_keeps:
  "api_calls_per_second (set_max_count m s) = api_calls_per_second s"
  by (simp add: set_max_count_def)

text \<open>
  So when the server refuses, every method that reaches the call raises \<open>TypeError\<close>;
  the exception carries neither the status nor the body.
\<close>

lemma non_200_raises:
  assumes cps: "api_calls_per_second s \<noteq> 0"
    and refused: "\<And>w url ps. status_code (transport E w url ps) \<noteq> 200"
  shows "fst (run E s w op) =
     (case op of
        GetInstrumentDescriptions ins_ids \<Rightarrow>
          if length ins_ids > 50 then Inr (MaybeTable None) else Inl TypeError
      | _ \<Rightarrow> Inl TypeError)"
proof -
  have r0: "\<exists>r. fst (call_api E s w url []) = Inr (Response r) \<and> status_code r \<noteq> 200" for url
    by (rule call_api_refused[OF cps get_params_no_kwargs refused])
  have r0': "\<exists>r. fst (call_api E (set_max_count m s) w url []) = Inr (Response r) \<and> status_code r \<noteq> 200" for url m
    by (rule call_api_refused[OF _ get_params_no_kwargs refused]) (simp add: set_max_count_keeps cps)
  have r1: "\<exists>r. fst (call_api E s w url [(''instList'', AIds ids)]) = Inr (Response r) \<and> status_code r \<noteq> 200" for url ids
    by (rule call_api_refused[OF cps get_params_inst_list refused])
  have r2: "\<exists>r. fst (call_api E s w url [(''from_date'', a), (''to'', b)]) = Inr (Response r) \<and> status_code r \<noteq> 200" for url a b
    using get_params_dates[of s a b] call_api_refused[OF cps _ refused] by blast
  have r3: "\<exists>r. fst (call_api E s w url [(''from_date'', a), (''to'', b), (''instList'', AIds ids)]) = Inr (Response r) \<and> status_code r \<noteq> 200" for url a b ids
    using get_params_dates_list[of s a b ids] call_api_refused[OF cps _ refused] by blast
  have r4: "\<exists>r. fst (call_api E s w url [(''date'', a)]) = Inr (Response r) \<and> status_code r \<noteq> 200" for url a
    using get_params_date[of s a] call_api_refused[OF cps _ refused] by blast
  show ?thesis
  proof (cases op)
    case GetInstrumentsUpdated
    then show ?thesis using r0[of "''instruments/updated''"]
      by (auto simp add: fst_returning fst_get_instruments_updated bnd_def)
  next
    case (GetInstrumentDescriptions ids)
    then show ?thesis
      by (simp add: fst_returning get_instrument_descriptions_def refused_then[OF r1])
  next
    case (GetKpiHistory ins_id kpi_id report_type price_type max_count)
    then show ?thesis
      using r0[of "''instruments/'' @ str_int ins_id @ ''/kpis/'' @ str_int kpi_id @ ''/''
        @ report_type @ ''/'' @ price_type @ ''/history''"]
      by (auto simp add: fst_returning fst_get_kpi_history bnd_def)
  next
    case (GetInstrumentReports ins_id)
    then show ?thesis using r0[of "''instruments/'' @ str_int ins_id @ ''/reports''"]
      by (auto simp add: fst_returning get_instrument_reports_def fst_and_then bnd_def)
  next
    case GetUpdatedKpis
    then show ?thesis
      by (simp add: fst_returning get_updated_kpis_def refused_then[OF r0])
  qed (simp_all add: fst_returning refused_then[OF r0] refused_then[OF r0'] refused_then[OF r1]
      refused_then[OF r2] refused_then[OF r3] refused_then[OF r4]
      get_branches_def get_countries_def get_markets_def get_sectors_def get_translation_metadata_def
      get_instruments_def get_kpi_summary_def get_kpi_data_instrument_def get_kpi_data_all_instruments_def
      get_kpi_metadata_def get_instrument_report_def
      get_instrument_report_list_def get_reports_metadata_def get_report_calendar_def
      get_instrument_stock_prices_def get_instrument_stock_prices_list_def
      get_instruments_stock_prices_last_def get_stock_prices_date_def get_stock_splits_def)
qed


text \<open>
  Claim C4, at a server that answers 404: \<^verbatim>\<open>get_branches\<close> issues one request,
  prints the status and raises \<open>TypeError\<close>, where the claim has it return a failure
  that carries the status and the body.
\<close>

theorem branches_404_raises:
  "fst (get_branches (server (failed 404 ''Not Found'')) (init ''key'') world0) = Inl TypeError \<and>
   sent (world_after (get_branches (server (failed 404 ''Not Found'')) (init ''key'') world0)) =
     [(''https://apiservice.borsdata.se/v1/branches'',
       [(''authKey'', AStr ''key''), (''maxYearCount'', AInt 20), (''maxR12QCount'', AInt 40),
        (''maxCount'', AInt 20)])] \<and>
   printed (world_after (get_branches (server (failed 404 ''Not Found'')) (init ''key'') world0)) =
     [PrintUrl ''https://apiservice.borsdata.se/v1/branches''
        [(''authKey'', AStr ''key''), (''maxYearCount'', AInt 20), (''maxR12QCount'', AInt 40),
         (''maxCount'', AInt 20)],
      PrintApiError 404]"
  by (simp add: get_branches_def and_then_def call_api_def get_params_def init_def world0_def
      server_def failed_def Let_def sleep_def print_def world_after_def bnd_def)

section \<open>The limit of 50 instruments\<close>

text \<open>
  \<^verbatim>\<open>get_instrument_descriptions\<close> returns \<open>None\<close> for more than 50 ids and leaves the
  session and the world untouched. \<^verbatim>\<open>get_report_calendar\<close> has no such test: it
  issues its request for a list of any length.
\<close>

lemma descriptions_over_50:
  "length ins_ids > 50 \<Longrightarrow> get_instrument_descriptions E s w ins_ids = (Inr None, s, w)"
  by (simp add: get_instrument_descriptions_def)

lemma report_calendar_sends:
  assumes "api_calls_per_second s \<noteq> 0"
  shows "sent (world_after (get_report_calendar E s w ins_ids)) =
    sent w @ [(url_root s @ ''instruments/report/calendar'',
               AList.update ''instList'' (AStr (join '','' (map str_int ins_ids))) (base_params s))]"
  unfolding get_report_calendar_def and_then_world
  by (rule call_api_sent[OF assms get_params_inst_list])

text \<open>
  Claim C2, at a list of 51 ids: the report calendar issues the GET, with all 51 ids in
  \<open>instList\<close>, where the claim has it fail validation first; the descriptions lookup
  issues none.
\<close>

theorem report_calendar_51_ids_sent:
  "length [1..51] = 51 \<and>
   sent (world_after
     (get_report_calendar (server (ok (JObj [(''list'', JArr [])]))) (init ''key'') world0 [1..51])) =
     [(''https://apiservice.borsdata.se/v1/instruments/report/calendar'',
       [(''authKey'', AStr ''key''), (''maxYearCount'', AInt 20), (''maxR12QCount'', AInt 40),
        (''maxCount'', AInt 20),
        (''instList'', AStr (join '','' (map str_int [1..51])))])] \<and>
   sent (world_after
     (get_instrument_descriptions (server (ok (JObj [(''list'', JArr [])]))) (init ''key'') world0
        [1..51])) = []"
proof -
  have c: "api_calls_per_second (init ''key'') \<noteq> 0" by (simp add: init_def)
  have l: "length [1..51] = 51" by simp
  show ?thesis
    unfolding report_calendar_sends[OF c]
    by (simp add: l descriptions_over_50 world_after_def) (simp add: init_def world0_def)
qed

section \<open>Tables: renaming, coercion, index and order\<close>

lemma bnd_Inr_iff: "bnd x f = Inr y \<longleftrightarrow> (\<exists>a. x = Inr a \<and> f a = Inr y)"
  by (cases x) (auto simp: bnd_def)

lemma bnd_Inr [simp]: "bnd (Inr a) f = f a"
  by (simp add: bnd_def)

lemma bnd_Inl [simp]: "bnd (Inl e) f = Inl e"
  by (simp add: bnd_def)

lemma traverse_length: "traverse f xs = Inr ys \<Longrightarrow> length ys = length xs"
  by (induction xs arbitrary: ys) (auto simp: bnd_Inr_iff)

lemma traverse_map: "traverse f xs = Inr ys \<Longrightarrow> list_all2 (\<lambda>x y. f x = Inr y) xs ys"
  by (induction xs arbitrary: ys) (auto simp: bnd_Inr_iff)

subsection \<open>Columns zipped with a row\<close>

lemma zip_map_zip:
  "zip cols (map g (zip cols r)) = map (\<lambda>p. (fst p, g p)) (zip cols r)"
proof (induction cols arbitrary: r)
  case Nil then show ?case by simp
next
  case (Cons c cols) then show ?case by (cases r) auto
qed

lemma map_of_map_keyed:
  "map_of (map (\<lambda>p. (fst p, g p)) al) k = (case map_of al k of None \<Rightarrow> None | Some v \<Rightarrow> Some (g (k, v)))"
  by (induction al) auto

lemma zip_filter_cols:
  "zip (filter P cols) (map snd (filter (\<lambda>(c, v). P c) (zip cols r))) = filter (\<lambda>(c, v). P c) (zip cols r)"
proof (induction cols arbitrary: r)
  case Nil then show ?case by simp
next
  case (Cons c cols) then show ?case by (cases r) auto
qed

lemma map_of_filter_key:
  "map_of (filter (\<lambda>(c, v). P c) al) k = (if P k then map_of al k else None)"
  by (induction al) auto

lemma length_filter_cols:
  "length r = length cols \<Longrightarrow>
   length (map snd (filter (\<lambda>(c, v). P c) (zip cols r))) = length (filter P cols)"
proof (induction cols arbitrary: r)
  case Nil then show ?case by simp
next
  case (Cons c cols) then show ?case by (cases r) auto
qed

subsection \<open>Reading and replacing a column\<close>

lemma cell_at_set_cell:
  "cell_at df (set_cell df c r v) k =
     (if k = c then (case map_of (zip (columns df) r) c of None \<Rightarrow> NA | Some x \<Rightarrow> v) else cell_at df r k)"
  by (simp add: cell_at_def set_cell_def zip_map_zip map_of_map_keyed split: option.splits)

lemma map_of_zip_present:
  "length r = length cols \<Longrightarrow> c \<in> set cols \<Longrightarrow> \<exists>x. map_of (zip cols r) c = Some x"
  by (metis map_of_zip_is_Some not_None_eq)

lemma rectangular_row:
  "rectangular df \<Longrightarrow> (k, r) \<in> set (rows df) \<Longrightarrow> length r = length (columns df)"
  by (auto simp: rectangular_def list_all_iff)

lemma cell_at_same_columns: "columns df' = columns df \<Longrightarrow> cell_at df' r k = cell_at df r k"
  by (simp add: cell_at_def)

lemma column_values_set_column_raw:
  "column_values (set_column df c vs) k =
     map (\<lambda>((k', r), v). cell_at df (set_cell df c r v) k) (zip (rows df) vs)"
  by (auto simp: column_values_def set_column_def cell_at_def)

lemma column_values_set_column:
  assumes "rectangular df" and "c \<in> set (columns df)" and "length vs = length (rows df)"
  shows "column_values (set_column df c vs) c = vs"
proof -
  have "(\<lambda>((k', r), v). cell_at df (set_cell df c r v) c) p = snd p"
    if "p \<in> set (zip (rows df) vs)" for p
  proof -
    obtain k' r v where p: "p = ((k', r), v)" by (metis prod.collapse)
    with that have "(k', r) \<in> set (rows df)" by (auto dest: set_zip_leftD)
    then have "length r = length (columns df)" using rectangular_row[OF assms(1)] by auto
    from map_of_zip_present[OF this assms(2)] obtain x where "map_of (zip (columns df) r) c = Some x"
      by blast
    then show ?thesis by (simp add: p cell_at_set_cell)
  qed
  then have "map (\<lambda>((k', r), v). cell_at df (set_cell df c r v) c) (zip (rows df) vs) =
     map snd (zip (rows df) vs)"
    by (intro map_cong) auto
  then show ?thesis using assms(3) by (simp add: column_values_set_column_raw)
qed

lemma column_values_set_column_other:
  assumes "k \<noteq> c" and "length vs = length (rows df)"
  shows "column_values (set_column df c vs) k = column_values df k"
proof -
  have "map (\<lambda>((k', r), v). cell_at df (set_cell df c r v) k) (zip (rows df) vs) =
      map ((\<lambda>(k', r). cell_at df r k) \<circ> fst) (zip (rows df) vs)"
    using assms(1) by (intro map_cong) (auto simp: cell_at_set_cell)
  also have "\<dots> = map (\<lambda>(k', r). cell_at df r k) (map fst (zip (rows df) vs))"
    by simp
  also have "\<dots> = column_values df k"
    using assms(2) by (simp add: column_values_def)
  finally show ?thesis by (simp add: column_values_set_column_raw)
qed

lemma rectangular_set_column:
  assumes "rectangular df"
  shows "rectangular (set_column df c vs)"
proof -
  have "length (set_cell df c r v) = length (columns df)" if "length r = length (columns df)" for r v
    using that by (simp add: set_cell_def)
  then show ?thesis using assms
    by (auto simp: rectangular_def set_column_def list_all_iff dest!: set_zip_leftD)
qed

lemma rectangular_rename: "rectangular (rename m df) = rectangular df"
  by (simp add: rectangular_def rename_def)

lemma column_values_rename_rows: "rows (rename m df) = rows df"
  by (simp add: rename_def)

subsection \<open>What a successful \<^verbatim>\<open>_parse_date\<close> did\<close>

lemma parse_date_Inr:
  assumes "parse_date E df c = Inr df'"
  shows "if c \<in> set (columns df)
         then count_list (columns df) c = 1 \<and>
              (\<exists>vs. to_datetime E (column_values df c) = Inr vs \<and> df' = set_column df c vs)
         else df' = df"
  using assms by (auto simp: parse_date_def bnd_Inr_iff split: if_splits)

lemma length_column_values: "length (column_values df c) = length (rows df)"
  by (simp add: column_values_def)

subsection \<open>What a successful \<^verbatim>\<open>_set_index\<close> did\<close>

lemma sort_keys_props:
  "mset (map fst (sort_keys asc rs)) = mset (map fst rs)"
  "sorted_wrt (key_le asc) (map fst (sort_keys asc rs))"
  "mset (sort_keys asc rs) = mset rs"
proof -
  show "mset (sort_keys asc rs) = mset rs" by (simp add: sort_keys_def)
  then show "mset (map fst (sort_keys asc rs)) = mset (map fst rs)"
    by (metis mset_map)
  have "sorted (map (\<lambda>(k, r). map (cell_key asc) k) (sort_keys asc rs))"
    unfolding sort_keys_def by (rule sorted_sort_key)
  then show "sorted_wrt (key_le asc) (map fst (sort_keys asc rs))"
    by (simp add: sorted_map sorted_wrt_map key_le_def case_prod_unfold)
qed

lemma set_index_Single_Inr:
  assumes "set_index df (Single c) asc = Inr df'" and "c \<in> set (columns df)"
  shows "index_names df' = [c]"
    and "columns df' = filter (\<lambda>x. x \<noteq> c) (columns df)"
    and "count_list (columns df) c = 1"
    and "mset (map fst (rows df')) = mset (map (\<lambda>v. [v]) (column_values df c))"
    and "sorted_wrt (key_le asc) (map fst (rows df'))"
    and "mset (rows df') = mset (map (\<lambda>(k, r). ([cell_at df r c],
                   map snd (filter (\<lambda>(l, v). l \<noteq> c) (zip (columns df) r)))) (rows df))"
proof -
  from assms obtain df1 where 1: "pd_set_index df [c] = Inr df1" and 2: "pd_sort_index df1 asc = Inr df'"
    by (auto simp: bnd_Inr_iff)
  from 1 assms(2) have c1: "count_list (columns df) c = 1"
    and df1: "df1 = df\<lparr>columns := filter (\<lambda>x. x \<noteq> c) (columns df), index_names := [c],
        rows := map (\<lambda>(k, r). ([cell_at df r c], map snd (filter (\<lambda>(l, v). l \<noteq> c) (zip (columns df) r)))) (rows df)\<rparr>"
    by (auto simp: pd_set_index_def split: if_splits)
  from 2 have df': "df' = df1\<lparr>rows := sort_keys asc (rows df1)\<rparr>"
    by (auto simp: pd_sort_index_def split: if_splits)
  show "index_names df' = [c]" "columns df' = filter (\<lambda>x. x \<noteq> c) (columns df)"
    by (simp_all add: df' df1)
  show "count_list (columns df) c = 1" by (rule c1)
  show "mset (map fst (rows df')) = mset (map (\<lambda>v. [v]) (column_values df c))"
  proof -
    have "map fst (rows df1) = map (\<lambda>v. [v]) (column_values df c)"
      by (simp add: df1 column_values_def comp_def case_prod_unfold)
    moreover have "mset (map fst (rows df')) = mset (map fst (rows df1))"
      using sort_keys_props(1)[of asc "rows df1"] by (simp add: df')
    ultimately show ?thesis by simp
  qed
  show "sorted_wrt (key_le asc) (map fst (rows df'))"
    by (simp add: df' sort_keys_props(2))
  show "mset (rows df') = mset (map (\<lambda>(k, r). ([cell_at df r c],
                   map snd (filter (\<lambda>(l, v). l \<noteq> c) (zip (columns df) r)))) (rows df))"
    by (simp add: df' sort_keys_props(3)) (simp add: df1)
qed

lemma key_le_times: "key_le False [CTime a] [CTime b] \<longleftrightarrow> b \<le> a"
  by (auto simp: key_le_def signed_def)

lemma key_le_times_asc: "key_le True [CTime a] [CTime b] \<longleftrightarrow> a \<le> b"
  by (auto simp: key_le_def signed_def)

lemma key_le_ints: "key_le True [CInt a] [CInt b] \<longleftrightarrow> a \<le> b"
  by (auto simp: key_le_def signed_def)

lemma fst_and_then_payload:
  "fst (and_then c (\<lambda>json_data. bnd (subscript json_data key) (\<lambda>v. bnd (json_normalize E v p m) f)))
     = bnd (payload_table E c key p m) f"
  by (cases "fst c") (simp_all add: fst_and_then payload_table_def bnd_def split: sum.splits)

lemma sorted_keys_descending_times:
  assumes "sorted_wrt (key_le False) ks" and "i < j" and "j < length ks"
    and "ks ! i = [CTime a]" and "ks ! j = [CTime b]"
  shows "b \<le> a"
proof -
  from sorted_wrt_nth_less[OF assms(1-3)] have "key_le False (ks ! i) (ks ! j)" .
  then show ?thesis by (simp add: assms(4,5) key_le_times)
qed

lemma columns_set_column: "columns (set_column df c vs) = columns df"
  by (simp add: set_column_def)

lemma index_names_set_column: "index_names (set_column df c vs) = index_names df"
  by (simp add: set_column_def)

subsection \<open>The example environment is a pandas environment\<close>

lemma rectangular_frame_of_records:
  assumes "\<And>r ms. (r, ms) \<in> set recs \<Longrightarrow> length ms = length meta"
  shows "rectangular (frame_of_records recs meta)"
  using assms
  by (auto simp: rectangular_def frame_of_records_def Let_def list_all_iff in_set_enumerate_eq)
    (metis nth_mem)

lemma traverse_set:
  "traverse f xs = Inr ys \<Longrightarrow> y \<in> set ys \<Longrightarrow> \<exists>x \<in> set xs. f x = Inr y"
  by (induction xs arbitrary: ys) (auto simp: bnd_Inr_iff)

lemma child_records_meta:
  assumes "child_records path meta p = Inr recs" and "(r, ms) \<in> set recs"
  shows "length ms = length meta"
proof (cases p)
  case (JObj kvs)
  with assms show ?thesis
    by (auto simp: bnd_Inr_iff split: option.splits json.splits if_splits dest: traverse_length)
qed (use assms in simp_all)

lemma rectangular_normalize_flat:
  assumes "normalize_flat v path meta = Inr df"
  shows "rectangular df"
proof (cases path)
  case None
  with assms show ?thesis
    by (auto simp: bnd_Inr_iff intro!: rectangular_frame_of_records)
next
  case (Some p)
  with assms obtain parents recss where t: "traverse (child_records p meta) parents = Inr recss"
    and df: "df = frame_of_records (concat recss) meta"
    by (auto simp: bnd_Inr_iff)
  have "length ms = length meta" if "(r, ms) \<in> set (concat recss)" for r ms
  proof -
    from that obtain recs where "recs \<in> set recss" "(r, ms) \<in> set recs" by auto
    with traverse_set[OF t] child_records_meta show ?thesis by blast
  qed
  then show ?thesis unfolding df by (rule rectangular_frame_of_records)
qed

lemma pandas_env_server: "pandas_env (server r)"
  by (auto simp: pandas_env_def server_def rectangular_normalize_flat traverse_length)

subsection \<open>Coercing a column, then indexing by one\<close>

lemma count_list_one_mem: "count_list xs x = 1 \<Longrightarrow> x \<in> set xs"
  by (metis count_list_0_iff zero_neq_one)

lemma cells_except_set_cell: "cells_except df c (set_cell df c r v) = cells_except df c r"
proof -
  have "filter (\<lambda>(l, x). l \<noteq> c) (map (\<lambda>p. (fst p, (\<lambda>(l, x). if l = c then v else x) p)) al) =
        filter (\<lambda>(l, x). l \<noteq> c) al" for al :: "(cell \<times> cell) list"
    by (induction al) auto
  then show ?thesis
    by (simp add: cells_except_def set_cell_def zip_map_zip)
qed

lemma parse_date_total:
  assumes "count_list (columns df) c = 1" and "to_datetime E (column_values df c) = Inr vs"
  shows "parse_date E df c = Inr (set_column df c vs)"
  using assms count_list_one_mem[OF assms(1)] by (simp add: parse_date_def)

lemma set_index_Single_total:
  assumes "count_list (columns df) c = 1"
    and "keys_comparable (map (\<lambda>(k, r). [cell_at df r c]) (rows df))"
  shows "set_index df (Single c) asc =
     Inr (df\<lparr>columns := filter (\<lambda>x. x \<noteq> c) (columns df), index_names := [c],
            rows := sort_keys asc (map (\<lambda>(k, r). ([cell_at df r c], cells_except df c r)) (rows df))\<rparr>)"
proof -
  define rs where "rs = map (\<lambda>(k, r). ([cell_at df r c], cells_except df c r)) (rows df)"
  define df1 where "df1 = df\<lparr>columns := filter (\<lambda>x. x \<noteq> c) (columns df), index_names := [c],
      rows := rs\<rparr>"
  have m: "c \<in> set (columns df)" by (rule count_list_one_mem[OF assms(1)])
  have ps: "pd_set_index df [c] = Inr df1"
    using m assms(1) by (simp add: pd_set_index_def df1_def rs_def cells_except_def)
  have "map fst rs = map (\<lambda>(k, r). [cell_at df r c]) (rows df)"
    by (simp add: rs_def comp_def case_prod_unfold)
  then have "keys_comparable (map fst (rows df1))"
    using assms(2) by (simp add: df1_def)
  then have so: "pd_sort_index df1 asc = Inr (df1\<lparr>rows := sort_keys asc (rows df1)\<rparr>)"
    by (simp add: pd_sort_index_def)
  have "set_index df (Single c) asc = Inr (df1\<lparr>rows := sort_keys asc (rows df1)\<rparr>)"
    using m by (simp add: ps so)
  then show ?thesis by (simp add: df1_def rs_def)
qed

lemma rows_after_set_column:
  assumes rect: "rectangular df" and c: "c \<in> set (columns df)"
    and len: "length vs = length (rows df)"
  shows "map (\<lambda>(k, r). ([cell_at (set_column df c vs) r c], cells_except (set_column df c vs) c r))
           (rows (set_column df c vs)) =
         map (\<lambda>((k, r), v). ([v], cells_except df c r)) (zip (rows df) vs)"
proof -
  have pt: "(\<lambda>((k, r), v). ([cell_at df (set_cell df c r v) c], cells_except df c (set_cell df c r v))) p =
      (\<lambda>((k, r), v). ([v], cells_except df c r)) p"
    if "p \<in> set (zip (rows df) vs)" for p
  proof -
    obtain k r v where p: "p = ((k, r), v)" by (metis prod.collapse)
    with that have "(k, r) \<in> set (rows df)" by (auto dest: set_zip_leftD)
    then have "length r = length (columns df)" using rectangular_row[OF rect] by auto
    from map_of_zip_present[OF this c] obtain x where "map_of (zip (columns df) r) c = Some x"
      by blast
    then show ?thesis by (simp add: p cell_at_set_cell cells_except_set_cell)
  qed
  have "map (\<lambda>(k, r). ([cell_at (set_column df c vs) r c], cells_except (set_column df c vs) c r))
           (rows (set_column df c vs)) =
        map (\<lambda>((k, r), v). ([cell_at df (set_cell df c r v) c], cells_except df c (set_cell df c r v)))
           (zip (rows df) vs)"
    by (auto simp: set_column_def cell_at_def cells_except_def)
  also have "\<dots> = map (\<lambda>((k, r), v). ([v], cells_except df c r)) (zip (rows df) vs)"
    using pt by (intro map_cong) auto
  finally show ?thesis .
qed

lemma rows_of_set_column:
  "map f (rows (set_column df d vs)) = map (\<lambda>((k, r), v). f (k, set_cell df d r v)) (zip (rows df) vs)"
  by (simp add: set_column_def comp_def case_prod_unfold)

lemma rows_after_set_column_other:
  assumes "i \<noteq> d"
  shows "map (\<lambda>(k, r). ([cell_at (set_column df d vs) r i], cells_except (set_column df d vs) i r))
           (rows (set_column df d vs)) =
         map (\<lambda>((k, r), v). ([cell_at df r i], cells_except df i (set_cell df d r v))) (zip (rows df) vs)"
proof -
  have a: "cell_at (set_column df d vs) r i = cell_at df r i" for r
    by (rule cell_at_same_columns) (simp add: columns_set_column)
  have b: "cells_except (set_column df d vs) i r = cells_except df i r" for r
    by (simp add: cells_except_def columns_set_column)
  have c: "cell_at df (set_cell df d r v) i = cell_at df r i" for r v
    using assms by (simp add: cell_at_set_cell)
  show ?thesis
    unfolding rows_of_set_column a b by (simp add: c)
qed

lemma coerce_then_index:
  assumes rect: "rectangular df" and c: "count_list (columns df) c = 1"
    and vs: "to_datetime E (column_values df c) = Inr vs"
    and len: "length vs = length (rows df)"
    and cmp: "keys_comparable (map (\<lambda>v. [v]) vs)"
  shows "bnd (parse_date E df c) (\<lambda>df. set_index df (Single c) asc) =
     Inr (df\<lparr>columns := filter (\<lambda>x. x \<noteq> c) (columns df), index_names := [c],
            rows := sort_keys asc (map (\<lambda>((k, r), v). ([v], cells_except df c r)) (zip (rows df) vs))\<rparr>)"
proof -
  let ?df1 = "set_column df c vs"
  have m: "c \<in> set (columns df)" by (rule count_list_one_mem[OF c])
  note r = rows_after_set_column[OF rect m len]
  have "map (\<lambda>(k, r). [cell_at ?df1 r c]) (rows ?df1) =
        map fst (map (\<lambda>(k, r). ([cell_at ?df1 r c], cells_except ?df1 c r)) (rows ?df1))"
    by (simp add: comp_def case_prod_unfold)
  also have "\<dots> = map (\<lambda>v. [v]) vs"
  proof -
    have "map fst (map (\<lambda>((k, r), v). ([v], cells_except df c r)) (zip (rows df) vs)) =
       map (\<lambda>v. [v]) (map snd (zip (rows df) vs))"
      by (simp add: comp_def case_prod_unfold)
    then show ?thesis unfolding r using len by simp
  qed
  finally have k: "keys_comparable (map (\<lambda>(k, r). [cell_at ?df1 r c]) (rows ?df1))"
    using cmp by simp
  have c1: "count_list (columns ?df1) c = 1" using c by (simp add: columns_set_column)
  show ?thesis
    unfolding parse_date_total[OF c vs] bnd_Inr set_index_Single_total[OF c1 k] r
    by (simp add: set_column_def)
qed


lemma coerce_then_index_other:
  assumes d: "count_list (columns df) d = 1" and i: "count_list (columns df) i = 1"
    and ne: "i \<noteq> d"
    and vs: "to_datetime E (column_values df d) = Inr vs"
    and len: "length vs = length (rows df)"
    and cmp: "keys_comparable (map (\<lambda>(k, r). [cell_at df r i]) (rows df))"
  shows "bnd (parse_date E df d) (\<lambda>df. set_index df (Single i) asc) =
     Inr (df\<lparr>columns := filter (\<lambda>x. x \<noteq> i) (columns df), index_names := [i],
            rows := sort_keys asc
              (map (\<lambda>((k, r), v). ([cell_at df r i], cells_except df i (set_cell df d r v)))
                 (zip (rows df) vs))\<rparr>)"
proof -
  let ?df1 = "set_column df d vs"
  note r = rows_after_set_column_other[OF ne, of df vs]
  have "map (\<lambda>(k, r). [cell_at ?df1 r i]) (rows ?df1) =
        map fst (map (\<lambda>(k, r). ([cell_at ?df1 r i], cells_except ?df1 i r)) (rows ?df1))"
    by (simp add: comp_def case_prod_unfold)
  also have "\<dots> = map (\<lambda>(k, r). [cell_at df r i]) (rows df)"
  proof -
    have "map fst (map (\<lambda>((k, r), v). ([cell_at df r i], cells_except df i (set_cell df d r v)))
                 (zip (rows df) vs)) =
       map (\<lambda>(k, r). [cell_at df r i]) (map fst (zip (rows df) vs))"
      by (simp add: comp_def case_prod_unfold)
    then show ?thesis unfolding r using len by simp
  qed
  finally have k: "keys_comparable (map (\<lambda>(k, r). [cell_at ?df1 r i]) (rows ?df1))"
    using cmp by simp
  have c1: "count_list (columns ?df1) i = 1" using i by (simp add: columns_set_column)
  show ?thesis
    unfolding parse_date_total[OF d vs] bnd_Inr set_index_Single_total[OF c1 k] r
    by (simp add: set_column_def)
qed

subsection \<open>From the table a method returns to what the statements say of it\<close>

lemma indexed_by_dateI:
  assumes n: "index_names df = [CStr ''date'']"
    and c: "columns df = filter (\<lambda>x. x \<noteq> CStr ''date'') (columns (rename names df0))"
    and r: "rows df = sort_keys False
                (map (\<lambda>((k, r), v). ([v], cells_except (rename names df0) (CStr ''date'') r))
                   (zip (rows df0) vs))"
  shows "indexed_by_date names df0 vs df"
proof -
  have s: "sorted_wrt (key_le False) (map fst (rows df))"
    unfolding r by (rule sort_keys_props(2))
  have "b \<le> a" if "i < j" "j < length (rows df)" "fst (rows df ! i) = [CTime a]"
    "fst (rows df ! j) = [CTime b]" for i j a b
    using sorted_keys_descending_times[OF s, of i j a b] that by simp
  moreover have "mset (rows df) =
        mset (map (\<lambda>((k, r), v). ([v], cells_except (rename names df0) (CStr ''date'') r))
                (zip (rows df0) vs))"
    unfolding r by (rule sort_keys_props(3))
  ultimately show ?thesis
    using s n c unfolding indexed_by_date_def by blast
qed

lemma indexed_by_ins_idI:
  assumes n: "index_names df = [CStr ''insId'']"
    and c: "columns df = filter (\<lambda>x. x \<noteq> CStr ''insId'') (columns (rename names df0))"
    and r: "rows df = sort_keys True
                (map (\<lambda>((k, r), v).
                     ([cell_at (rename names df0) r (CStr ''insId'')],
                      cells_except (rename names df0) (CStr ''insId'')
                        (set_cell (rename names df0) (CStr ''date'') r v)))
                   (zip (rows df0) vs))"
  shows "indexed_by_ins_id names df0 vs df"
  unfolding indexed_by_ins_id_def
  using n c sort_keys_props(2)[of True] sort_keys_props(3)[of True] unfolding r by blast

lemma rows_rename: "rows (rename m df) = rows df"
  by (simp add: rename_def)

section \<open>Stock price tables\<close>

lemma price_names_rename:
  "map (rename_label price_names) [CStr ''d'', CStr ''c'', CStr ''h'', CStr ''l'', CStr ''o'', CStr ''v''] =
     [CStr ''date'', CStr ''close'', CStr ''high'', CStr ''low'', CStr ''open'', CStr ''volume'']"
  "map (rename_label price_names_ins) [CStr ''d'', CStr ''c'', CStr ''h'', CStr ''l'', CStr ''o'', CStr ''v''] =
     [CStr ''date'', CStr ''close'', CStr ''high'', CStr ''low'', CStr ''open'', CStr ''volume'']"
  by (simp_all add: rename_label_def price_names_def price_names_ins_def)

text \<open>
  Claim C5, as the code has it. All four stock-price methods rename the fields
  \<open>d, c, h, l, o, v\<close> to \<open>date, close, high, low, open, volume\<close>. Let pandas read
  the payload as the rectangular table \<open>df0\<close>.
  \<^item> \<^verbatim>\<open>get_instrument_stock_prices\<close> and \<^verbatim>\<open>get_instruments_stock_prices_last\<close>:
    when the renamed table has exactly one \<open>date\<close> column, \<^verbatim>\<open>pd.to_datetime\<close> accepts
    that column and returns the values \<open>vs\<close>, and these values can be ordered, the
    method returns a table. Its rows are the rows of the payload, each one under the
    date value read from its own \<open>date\<close> cell as index key and with its other cells
    unchanged under their renamed labels; they are sorted by \<open>date\<close>, descending.
  \<^item> \<^verbatim>\<open>get_stock_prices_date\<close>: when moreover the renamed table has exactly one
    \<open>insId\<close> column whose values can be ordered, the method returns a table. Its rows
    are the rows of the payload, each one under its own \<open>insId\<close> as index key, with its
    \<open>date\<close> cell coerced and its other cells unchanged; they are sorted by \<open>insId\<close>,
    ascending.
  \<^item> \<^verbatim>\<open>get_instrument_stock_prices_list\<close> returns the renamed table, \<open>instrument\<close>
    renamed to \<open>stock_id\<close>, with its missing cells set to 0: no coercion of \<open>date\<close>,
    no index.
\<close>

theorem stock_price_tables:
  assumes "pandas_env E"
  shows
    "(payload_table E
        (call_api E s w (''instruments/'' @ str_int ins_id @ ''/stockprices'')
           [(''from_date'', from_date), (''to'', to_date)])
        ''stockPricesList'' None [] = Inr df0 \<and>
      count_list (columns (rename price_names df0)) (CStr ''date'') = 1 \<and>
      to_datetime E (column_values (rename price_names df0) (CStr ''date'')) = Inr vs \<and>
      keys_comparable (map (\<lambda>v. [v]) vs)
      \<longrightarrow> (\<exists>df. fst (get_instrument_stock_prices E s w ins_id from_date to_date max_count) = Inr df \<and>
                indexed_by_date price_names df0 vs df)) \<and>
     (payload_table E (call_api E s w ''instruments/stockprices/last'' [])
        ''stockPricesList'' None [] = Inr df0 \<and>
      count_list (columns (rename price_names_ins df0)) (CStr ''date'') = 1 \<and>
      to_datetime E (column_values (rename price_names_ins df0) (CStr ''date'')) = Inr vs \<and>
      keys_comparable (map (\<lambda>v. [v]) vs)
      \<longrightarrow> (\<exists>df. fst (get_instruments_stock_prices_last E s w) = Inr df \<and>
                indexed_by_date price_names_ins df0 vs df)) \<and>
     (payload_table E (call_api E s w ''instruments/stockprices/date'' [(''date'', date)])
        ''stockPricesList'' None [] = Inr df0 \<and>
      count_list (columns (rename price_names_ins df0)) (CStr ''date'') = 1 \<and>
      count_list (columns (rename price_names_ins df0)) (CStr ''insId'') = 1 \<and>
      to_datetime E (column_values (rename price_names_ins df0) (CStr ''date'')) = Inr vs \<and>
      keys_comparable
        (map (\<lambda>(k, r). [cell_at (rename price_names_ins df0) r (CStr ''insId'')]) (rows df0))
      \<longrightarrow> (\<exists>df. fst (get_stock_prices_date E s w date) = Inr df \<and>
                indexed_by_ins_id price_names_ins df0 vs df)) \<and>
     (payload_table E
        (call_api E s w ''instruments/stockprices''
           [(''from_date'', from_date), (''to'', to_date), (''instList'', AIds stock_id_list)])
        ''stockPricesArrayList'' (Some ''stockPricesList'') [''instrument''] = Inr df0
      \<longrightarrow> fst (get_instrument_stock_prices_list E s w stock_id_list from_date to_date) =
            Inr (fillna0 (rename (price_names @ [(CStr ''instrument'', CStr ''stock_id'')]) df0))) \<and>
     map (rename_label price_names)
       [CStr ''d'', CStr ''c'', CStr ''h'', CStr ''l'', CStr ''o'', CStr ''v''] =
       [CStr ''date'', CStr ''close'', CStr ''high'', CStr ''low'', CStr ''open'', CStr ''volume''] \<and>
     map (rename_label price_names_ins)
       [CStr ''d'', CStr ''c'', CStr ''h'', CStr ''l'', CStr ''o'', CStr ''v''] =
       [CStr ''date'', CStr ''close'', CStr ''high'', CStr ''low'', CStr ''open'', CStr ''volume'']"
proof -
  from assms have len: "\<And>cs vs. to_datetime E cs = Inr vs \<Longrightarrow> length vs = length cs"
    and rect: "\<And>v path meta df. json_normalize E v path meta = Inr df \<Longrightarrow> rectangular df"
    by (auto simp: pandas_env_def)
  have r0: "rectangular (rename names df0)" if "payload_table E c key path meta = Inr df0"
    for c key path meta names
    using that rect by (auto simp: payload_table_def bnd_Inr_iff rectangular_rename)
  have l0: "length vs = length (rows (rename names df0))"
    if "to_datetime E (column_values (rename names df0) c) = Inr vs" for names c
    using len[OF that] by (simp add: length_column_values)
  have a: "\<exists>df. fst (get_instrument_stock_prices E s w ins_id from_date to_date max_count) = Inr df \<and>
                indexed_by_date price_names df0 vs df"
    if p: "payload_table E
        (call_api E s w (''instruments/'' @ str_int ins_id @ ''/stockprices'')
           [(''from_date'', from_date), (''to'', to_date)])
        ''stockPricesList'' None [] = Inr df0"
      and c: "count_list (columns (rename price_names df0)) (CStr ''date'') = 1"
      and v: "to_datetime E (column_values (rename price_names df0) (CStr ''date'')) = Inr vs"
      and k: "keys_comparable (map (\<lambda>v. [v]) vs)"
  proof -
    note e = coerce_then_index[OF r0[OF p] c v l0[OF v] k, of False]
    define df where "df = (rename price_names df0)
         \<lparr>columns := filter (\<lambda>x. x \<noteq> CStr ''date'') (columns (rename price_names df0)),
          index_names := [CStr ''date''],
          rows := sort_keys False (map (\<lambda>((k, r), v). ([v], cells_except (rename price_names df0) (CStr ''date'') r))
                   (zip (rows (rename price_names df0)) vs))\<rparr>"
    have r: "fst (get_instrument_stock_prices E s w ins_id from_date to_date max_count) = Inr df"
      unfolding get_instrument_stock_prices_def fst_and_then_payload p bnd_Inr e df_def ..
    have "indexed_by_date price_names df0 vs df"
      by (rule indexed_by_dateI) (simp_all add: df_def rows_rename)
    with r show ?thesis by blast
  qed
  have b: "\<exists>df. fst (get_instruments_stock_prices_last E s w) = Inr df \<and>
                indexed_by_date price_names_ins df0 vs df"
    if p: "payload_table E (call_api E s w ''instruments/stockprices/last'' [])
        ''stockPricesList'' None [] = Inr df0"
      and c: "count_list (columns (rename price_names_ins df0)) (CStr ''date'') = 1"
      and v: "to_datetime E (column_values (rename price_names_ins df0) (CStr ''date'')) = Inr vs"
      and k: "keys_comparable (map (\<lambda>v. [v]) vs)"
  proof -
    note e = coerce_then_index[OF r0[OF p] c v l0[OF v] k, of False]
    define df where "df = (rename price_names_ins df0)
         \<lparr>columns := filter (\<lambda>x. x \<noteq> CStr ''date'') (columns (rename price_names_ins df0)),
          index_names := [CStr ''date''],
          rows := sort_keys False (map (\<lambda>((k, r), v). ([v], cells_except (rename price_names_ins df0) (CStr ''date'') r))
                   (zip (rows (rename price_names_ins df0)) vs))\<rparr>"
    have r: "fst (get_instruments_stock_prices_last E s w) = Inr df"
      unfolding get_instruments_stock_prices_last_def fst_and_then_payload p bnd_Inr e df_def ..
    have "indexed_by_date price_names_ins df0 vs df"
      by (rule indexed_by_dateI) (simp_all add: df_def rows_rename)
    with r show ?thesis by blast
  qed
  have c: "\<exists>df. fst (get_stock_prices_date E s w date) = Inr df \<and>
                indexed_by_ins_id price_names_ins df0 vs df"
    if p: "payload_table E (call_api E s w ''instruments/stockprices/date'' [(''date'', date)])
        ''stockPricesList'' None [] = Inr df0"
      and c: "count_list (columns (rename price_names_ins df0)) (CStr ''date'') = 1"
      and i: "count_list (columns (rename price_names_ins df0)) (CStr ''insId'') = 1"
      and v: "to_datetime E (column_values (rename price_names_ins df0) (CStr ''date'')) = Inr vs"
      and k: "keys_comparable
        (map (\<lambda>(k, r). [cell_at (rename price_names_ins df0) r (CStr ''insId'')]) (rows df0))"
  proof -
    have k': "keys_comparable
        (map (\<lambda>(k, r). [cell_at (rename price_names_ins df0) r (CStr ''insId'')])
           (rows (rename price_names_ins df0)))"
      using k by (simp add: rows_rename)
    have ne: "CStr ''insId'' \<noteq> CStr ''date''" by simp
    note e = coerce_then_index_other[OF c i ne v l0[OF v] k', of True]
    define df where "df = (rename price_names_ins df0)
         \<lparr>columns := filter (\<lambda>x. x \<noteq> CStr ''insId'') (columns (rename price_names_ins df0)),
          index_names := [CStr ''insId''],
          rows := sort_keys True (map (\<lambda>((k, r), v).
                     ([cell_at (rename price_names_ins df0) r (CStr ''insId'')],
                      cells_except (rename price_names_ins df0) (CStr ''insId'')
                        (set_cell (rename price_names_ins df0) (CStr ''date'') r v)))
                   (zip (rows (rename price_names_ins df0)) vs))\<rparr>"
    have r: "fst (get_stock_prices_date E s w date) = Inr df"
      unfolding get_stock_prices_date_def fst_and_then_payload p bnd_Inr e df_def ..
    have "indexed_by_ins_id price_names_ins df0 vs df"
      by (rule indexed_by_ins_idI) (simp_all add: df_def rows_rename)
    with r show ?thesis by blast
  qed
  have d: "fst (get_instrument_stock_prices_list E s w stock_id_list from_date to_date) =
            Inr (fillna0 (rename (price_names @ [(CStr ''instrument'', CStr ''stock_id'')]) df0))"
    if "payload_table E
        (call_api E s w ''instruments/stockprices''
           [(''from_date'', from_date), (''to'', to_date), (''instList'', AIds stock_id_list)])
        ''stockPricesArrayList'' (Some ''stockPricesList'') [''instrument''] = Inr df0"
    unfolding get_instrument_stock_prices_list_def fst_and_then_payload that bnd_Inr ..
  from a b c d price_names_rename show ?thesis by blast
qed

text \<open>
  An example: three prices of instrument 3, out of order in the payload. Every row of
  the result carries the close and the volume of its own date.
\<close>

lemma prices_read:
  "payload_table (server (ok prices))
     (call_api (server (ok prices)) (init ''key'') world0
        (''instruments/'' @ str_int 3 @ ''/stockprices'') [(''from_date'', ANone), (''to'', ANone)])
     ''stockPricesList'' None [] =
   Inr \<lparr>columns = [CStr ''d'', CStr ''c'', CStr ''v''], index_names = [],
        rows = [([CInt 0], [CStr ''2020-09-24'', CNum (21 / 2), CInt 100]),
                ([CInt 1], [CStr ''2020-09-28'', CNum 11, CInt 300]),
                ([CInt 2], [CStr ''2020-09-25'', CNum 12, CInt 200])]\<rparr>"
  by code_simp

lemma prices_dates:
  "count_list (columns (rename price_names
      \<lparr>columns = [CStr ''d'', CStr ''c'', CStr ''v''], index_names = [],
        rows = [([CInt 0], [CStr ''2020-09-24'', CNum (21 / 2), CInt 100]),
                ([CInt 1], [CStr ''2020-09-28'', CNum 11, CInt 300]),
                ([CInt 2], [CStr ''2020-09-25'', CNum 12, CInt 200])]\<rparr>)) (CStr ''date'') = 1"
  "to_datetime (server (ok prices)) (column_values (rename price_names
      \<lparr>columns = [CStr ''d'', CStr ''c'', CStr ''v''], index_names = [],
        rows = [([CInt 0], [CStr ''2020-09-24'', CNum (21 / 2), CInt 100]),
                ([CInt 1], [CStr ''2020-09-28'', CNum 11, CInt 300]),
                ([CInt 2], [CStr ''2020-09-25'', CNum 12, CInt 200])]\<rparr>) (CStr ''date'')) =
     Inr [CTime 18529, CTime 18533, CTime 18530]"
  "keys_comparable (map (\<lambda>v. [v]) [CTime 18529, CTime 18533, CTime 18530])"
  by code_simp+

lemma prices_table:
  "fst (get_instrument_stock_prices (server (ok prices)) (init ''key'') world0 3 ANone ANone ANone) =
   Inr \<lparr>columns = [CStr ''close'', CStr ''volume''],
        index_names = [CStr ''date''],
        rows = [([CTime 18533], [CNum 11, CInt 300]),
                ([CTime 18530], [CNum 12, CInt 200]),
                ([CTime 18529], [CNum (21 / 2), CInt 100])]\<rparr>"
  by code_simp

theorem stock_price_tables_witness:
  "pandas_env (server (ok prices)) \<and>
   payload_table (server (ok prices))
     (call_api (server (ok prices)) (init ''key'') world0
        (''instruments/'' @ str_int 3 @ ''/stockprices'') [(''from_date'', ANone), (''to'', ANone)])
     ''stockPricesList'' None [] =
   Inr \<lparr>columns = [CStr ''d'', CStr ''c'', CStr ''v''], index_names = [],
        rows = [([CInt 0], [CStr ''2020-09-24'', CNum (21 / 2), CInt 100]),
                ([CInt 1], [CStr ''2020-09-28'', CNum 11, CInt 300]),
                ([CInt 2], [CStr ''2020-09-25'', CNum 12, CInt 200])]\<rparr> \<and>
   count_list (columns (rename price_names
      \<lparr>columns = [CStr ''d'', CStr ''c'', CStr ''v''], index_names = [],
        rows = [([CInt 0], [CStr ''2020-09-24'', CNum (21 / 2), CInt 100]),
                ([CInt 1], [CStr ''2020-09-28'', CNum 11, CInt 300]),
                ([CInt 2], [CStr ''2020-09-25'', CNum 12, CInt 200])]\<rparr>)) (CStr ''date'') = 1 \<and>
   to_datetime (server (ok prices)) (column_values (rename price_names
      \<lparr>columns = [CStr ''d'', CStr ''c'', CStr ''v''], index_names = [],
        rows = [([CInt 0], [CStr ''2020-09-24'', CNum (21 / 2), CInt 100]),
                ([CInt 1], [CStr ''2020-09-28'', CNum 11, CInt 300]),
                ([CInt 2], [CStr ''2020-09-25'', CNum 12, CInt 200])]\<rparr>) (CStr ''date'')) =
     Inr [CTime 18529, CTime 18533, CTime 18530] \<and>
   keys_comparable (map (\<lambda>v. [v]) [CTime 18529, CTime 18533, CTime 18530]) \<and>
   fst (get_instrument_stock_prices (server (ok prices)) (init ''key'') world0 3 ANone ANone ANone) =
   Inr \<lparr>columns = [CStr ''close'', CStr ''volume''],
        index_names = [CStr ''date''],
        rows = [([CTime 18533], [CNum 11, CInt 300]),
                ([CTime 18530], [CNum 12, CInt 200]),
                ([CTime 18529], [CNum (21 / 2), CInt 100])]\<rparr> \<and>
   indexed_by_date price_names
     \<lparr>columns = [CStr ''d'', CStr ''c'', CStr ''v''], index_names = [],
        rows = [([CInt 0], [CStr ''2020-09-24'', CNum (21 / 2), CInt 100]),
                ([CInt 1], [CStr ''2020-09-28'', CNum 11, CInt 300]),
                ([CInt 2], [CStr ''2020-09-25'', CNum 12, CInt 200])]\<rparr>
     [CTime 18529, CTime 18533, CTime 18530]
     \<lparr>columns = [CStr ''close'', CStr ''volume''],
        index_names = [CStr ''date''],
        rows = [([CTime 18533], [CNum 11, CInt 300]),
                ([CTime 18530], [CNum 12, CInt 200]),
                ([CTime 18529], [CNum (21 / 2), CInt 100])]\<rparr>"
proof -
  let ?payload = "\<lparr>columns = [CStr ''d'', CStr ''c'', CStr ''v''], index_names = [],
        rows = [([CInt 0], [CStr ''2020-09-24'', CNum (21 / 2), CInt 100]),
                ([CInt 1], [CStr ''2020-09-28'', CNum 11, CInt 300]),
                ([CInt 2], [CStr ''2020-09-25'', CNum 12, CInt 200])]\<rparr>"
  let ?dates = "[CTime 18529, CTime 18533, CTime 18530]"
  let ?result = "\<lparr>columns = [CStr ''close'', CStr ''volume''],
        index_names = [CStr ''date''],
        rows = [([CTime 18533], [CNum 11, CInt 300]),
                ([CTime 18530], [CNum 12, CInt 200]),
                ([CTime 18529], [CNum (21 / 2), CInt 100])]\<rparr>"
  note t = stock_price_tables[OF pandas_env_server, of "ok prices" "init ''key''" world0 3 ANone ANone
      ?payload ?dates ANone]
  from t have "\<exists>df. fst (get_instrument_stock_prices (server (ok prices)) (init ''key'') world0 3
        ANone ANone ANone) = Inr df \<and> indexed_by_date price_names ?payload ?dates df"
    by (rule conjunct1[THEN mp]) (intro conjI prices_read prices_dates)
  then obtain df where 1: "fst (get_instrument_stock_prices (server (ok prices)) (init ''key'') world0 3
        ANone ANone ANone) = Inr df" and 2: "indexed_by_date price_names ?payload ?dates df"
    by (elim exE conjE)
  from 1 have "df = ?result" unfolding prices_table by simp
  with 2 have 3: "indexed_by_date price_names ?payload ?dates ?result" by (simp only:)
  show ?thesis
    by (intro conjI pandas_env_server prices_read prices_dates prices_table 3)
qed

text \<open>
  Claim C5 as it was stated fails for two of the four methods: the prices of a day
  come indexed by \<open>insId\<close> in ascending order, with \<open>date\<close> an ordinary column,
  and the prices of a list of instruments come with the default index and their dates
  still the strings of the payload.
\<close>

theorem prices_of_a_day_indexed_by_ins_id:
  "fst (get_stock_prices_date (server (ok prices_of_a_day)) (init ''key'') world0
          (AStr ''2020-09-25'')) =
   Inr \<lparr>columns = [CStr ''date'', CStr ''close''],
        index_names = [CStr ''insId''],
        rows = [([CInt 3], [CTime 18530, CNum 40]),
                ([CInt 7], [CTime 18530, CNum 12])]\<rparr> \<and>
   fst (get_instrument_stock_prices_list (server (ok prices_of_a_list)) (init ''key'') world0
          [2] ANone ANone) =
   Inr \<lparr>columns = [CStr ''date'', CStr ''close'', CStr ''high'', CStr ''stock_id''],
        index_names = [],
        rows = [([CInt 0], [CStr ''2020-09-24'', CNum 5, CNum (11 / 2), CInt 2]),
                ([CInt 1], [CStr ''2020-09-25'', CNum 6, CNum 0, CInt 2])]\<rparr>"
  by code_simp

section \<open>Metadata tables\<close>















section \<open>The KPI summary pivot\<close>

text \<open>
  \<^verbatim>\<open>pivot_table\<close> returns its rows in ascending order of the index and takes the
  index columns out of the data: what it leaves as columns are the values of the
  pivoted column.
\<close>

lemma sorted_wrt_remdups: "sorted_wrt P xs \<Longrightarrow> sorted_wrt P (remdups xs)"
  by (induction xs) auto

lemma sorted_distinct_keys_props:
  "sorted_wrt (key_le True) (sorted_distinct_keys ks)"
  "distinct (sorted_distinct_keys ks)"
  "set (sorted_distinct_keys ks) = set ks"
proof -
  have "sorted (map (map (cell_key True)) (sort_key (map (cell_key True)) ks))"
    by (rule sorted_sort_key)
  moreover have "key_le True = (\<lambda>x y. map (cell_key True) x \<le> map (cell_key True) y)"
    by (simp add: key_le_def fun_eq_iff)
  ultimately have "sorted_wrt (key_le True) (sort_key (map (cell_key True)) ks)"
    by (simp add: sorted_map)
  then show "sorted_wrt (key_le True) (sorted_distinct_keys ks)"
    unfolding sorted_distinct_keys_def by (rule sorted_wrt_remdups)
qed (simp_all add: sorted_distinct_keys_def)

lemma pd_pivot_table_Inr:
  assumes "pd_pivot_table df idx col val = Inr t"
  shows "index_names t = idx"
    and "sorted_wrt (key_le True) (map fst (rows t))"
    and "distinct (map fst (rows t))"
    and "set (columns t) \<subseteq> set (column_values df col)"
proof -
  let ?entries = "map (\<lambda>(k, r). (map (cell_at df r) idx, cell_at df r col, cell_at df r val)) (rows df)"
  let ?present = "filter (\<lambda>(rk, ck, v). NA \<notin> set rk \<and> ck \<noteq> NA \<and> v \<noteq> NA) ?entries"
  let ?row_keys = "sorted_distinct_keys (map (\<lambda>(rk, ck, v). rk) ?present)"
  let ?col_keys = "map hd (sorted_distinct_keys (map (\<lambda>(rk, ck, v). [ck]) ?present))"
  from assms have t: "t = \<lparr> columns = ?col_keys, index_names = idx,
       rows = map (\<lambda>rk. (rk, map (\<lambda>ck. mean_cell
                                     (map (\<lambda>(rk', ck', v). v)
                                        (filter (\<lambda>(rk', ck', v). rk' = rk \<and> ck' = ck) ?present)))
                                   ?col_keys)) ?row_keys \<rparr>"
    by (simp add: pd_pivot_table_def Let_def split: if_splits)
  have rk: "map fst (rows t) = ?row_keys"
    by (subst t) (simp add: comp_def)
  show "index_names t = idx" by (subst t) simp
  show "sorted_wrt (key_le True) (map fst (rows t))"
    unfolding rk by (rule sorted_distinct_keys_props(1))
  show "distinct (map fst (rows t))"
    unfolding rk by (rule sorted_distinct_keys_props(2))
  have "set (columns t) = hd ` set (map (\<lambda>(rk, ck, v). [ck]) ?present)"
    by (subst t) (simp add: sorted_distinct_keys_props(3))
  also have "\<dots> \<subseteq> set (column_values df col)"
    by (auto simp: column_values_def)
  finally show "set (columns t) \<subseteq> set (column_values df col)" .
qed

text \<open>
  So the \<^verbatim>\<open>_set_index(df, ["year", "period"], ascending=False)\<close> that follows the
  pivot finds no column \<open>year\<close> (unless a KPI id is that string) and returns at
  once: the summary comes in pivot order, ascending, for every payload.
\<close>

lemma key_le_year_period:
  "key_le True [CInt y, CInt p] [CInt y', CInt p'] \<longleftrightarrow> y < y' \<or> (y = y' \<and> p \<le> p')"
  by (auto simp: key_le_def signed_def)

lemma kpi_summary_in_pivot_order:
  assumes read: "payload_table E
        (call_api E (set_max_count max_count s) w
           (''instruments/'' @ str_int ins_id @ ''/kpis/'' @ report_type @ ''/summary'') [])
        ''kpis'' (Some ''values'') [''KpiId''] = Inr df0"
    and res: "fst (get_kpi_summary E s w ins_id report_type max_count) = Inr df"
    and ids: "CStr ''year'' \<notin> set (column_values
                (rename [(CStr ''y'', CStr ''year''), (CStr ''p'', CStr ''period''),
                         (CStr ''v'', CStr ''kpiValue''), (CStr ''KpiId'', CStr ''kpiId'')] df0)
                (CStr ''kpiId''))"
  shows "index_names df = [CStr ''year'', CStr ''period''] \<and>
         sorted_wrt (key_le True) (map fst (rows df)) \<and>
         distinct (map fst (rows df))"
proof -
  let ?r = "rename [(CStr ''y'', CStr ''year''), (CStr ''p'', CStr ''period''),
                         (CStr ''v'', CStr ''kpiValue''), (CStr ''KpiId'', CStr ''kpiId'')] df0"
  from res obtain t where p: "pd_pivot_table ?r [CStr ''year'', CStr ''period''] (CStr ''kpiId'')
        (CStr ''kpiValue'') = Inr t"
    and i: "set_index t (Multi [CStr ''year'', CStr ''period'']) False = Inr df"
    unfolding get_kpi_summary_def fst_and_then_payload read bnd_Inr
    by (auto simp: bnd_Inr_iff)
  note pv = pd_pivot_table_Inr[OF p]
  from pv(4) ids have "CStr ''year'' \<notin> set (columns t)" by blast
  with i have "df = t" by simp
  with pv(1,2,3) show ?thesis by simp
qed

text \<open>
  Claim C6, at a payload with two years: each KPI id has its column and the index is
  (year, period), but the row of 2020 comes before the row of 2021, where the claim has
  the table sorted descending.
\<close>

theorem kpi_summary_two_years_ascending:
  "fst (get_kpi_summary (server (ok kpi_values)) (init ''key'') world0 3 ''year'' ANone) =
   Inr \<lparr>columns = [CInt 10, CInt 11],
        index_names = [CStr ''year'', CStr ''period''],
        rows = [([CInt 2020, CInt 1], [CNum 5, CNum 7]),
                ([CInt 2021, CInt 1], [CNum 6, NA])]\<rparr>"
  by code_simp

text \<open>The example of the claim, with its single row, comes out as the claim says.\<close>

lemma kpi_summary_of_a_period:
  "fst (get_kpi_summary (server (ok kpi_values_of_a_period)) (init ''key'') world0 3 ''year'' ANone) =
   Inr \<lparr>columns = [CInt 10, CInt 11],
        index_names = [CStr ''year'', CStr ''period''],
        rows = [([CInt 2020, CInt 1], [CNum 5, CNum 7])]\<rparr>"
  by code_simp


end
